theory Spec2Isabelle
  imports Complex_Main "HOL-Library.Monad_Syntax"
begin

section \<open>Scalars and array views\<close>

text \<open>
  \<open>TacsScalar\<close> is the real-valued build of the solver's scalar type.  Arithmetic is
  modelled over the reals: rounding and overflow are left out.  The special values of
  the machine arithmetic are tracked only in the Newton solve of the coupled shear-mode
  parameters, where a not-a-number decides the control flow of the loop.
\<close>

type_synonym TacsScalar = real

text \<open>
  A call \<open>f(..., &buf[off])\<close> hands the callee the part of \<open>buf\<close> that starts at
  \<open>off\<close>; the callee's writes land at \<open>off + i\<close> of the caller's array.
\<close>

definition at_offset :: "nat \<Rightarrow> ('a list \<Rightarrow> 'a list) \<Rightarrow> 'a list \<Rightarrow> 'a list" where
  "at_offset off f buf = take off buf @ f (drop off buf)"

text \<open>\<open>memset(buf, 0, n * sizeof(TacsScalar))\<close> on a buffer of at least \<open>n\<close> entries.\<close>

definition memset_zero :: "nat \<Rightarrow> TacsScalar list \<Rightarrow> TacsScalar list" where
  "memset_zero n buf = replicate (min n (length buf)) 0 @ drop n buf"

section \<open>Nondimensional parameter library\<close>

text \<open>\<open>computeTransverseShearParameter\<close>: \<open>return A66 / A11 * (b / h) * (b / h);\<close>\<close>

definition computeTransverseShearParameter ::
  "TacsScalar \<Rightarrow> TacsScalar \<Rightarrow> TacsScalar \<Rightarrow> TacsScalar \<Rightarrow> TacsScalar" where
  "computeTransverseShearParameter A66 A11 b h = A66 / A11 * (b / h) * (b / h)"

text \<open>
  The four output pointers of \<open>computeTransverseShearParameterSens\<close> are passed in and
  returned as a record; the function returns the forward value and the updated slots.
\<close>

record zeta_sens =
  A66sens :: TacsScalar
  A11sens :: TacsScalar
  bsens :: TacsScalar
  hsens :: TacsScalar

definition computeTransverseShearParameterSens ::
  "TacsScalar \<Rightarrow> TacsScalar \<Rightarrow> TacsScalar \<Rightarrow> TacsScalar \<Rightarrow> TacsScalar \<Rightarrow> zeta_sens
     \<Rightarrow> TacsScalar \<times> zeta_sens" where
  "computeTransverseShearParameterSens zetasens A66 A11 b h out =
     (let zeta = A66 / A11 * (b / h) * (b / h);
          dzeta = zetasens * zeta
      in (zeta,
          out\<lparr> A66sens := A66sens out + dzeta / A66,
               A11sens := A11sens out + dzeta * (- 1) / A11,
               bsens := bsens out + dzeta * 2 / b,
               hsens := hsens out + dzeta * (- 2) / h \<rparr>))"

section \<open>KS aggregator\<close>

text \<open>
  Modelled from the spec: \<open>ksAggregation\<close> and \<open>ksAggregationSens\<close> are inherited
  helpers whose code is not part of the source files.  Section 4.1 of the specification
  gives them: \<open>aggregate(values[1..n], rho) = max + (1/rho) * log (sum_i exp (rho * (v_i - max)))\<close>,
  and \<open>aggregateSens\<close> returns the same value and fills the weights
  \<open>w_i = exp (rho * (v_i - max)) / sum_j exp (rho * (v_j - max))\<close>.  Every call in the
  source passes at least one value.
\<close>

fun ks_max :: "TacsScalar list \<Rightarrow> TacsScalar" where
  "ks_max [] = 0"
| "ks_max (v # vs) = fold max vs v"

definition ks_sum :: "TacsScalar list \<Rightarrow> TacsScalar \<Rightarrow> TacsScalar" where
  "ks_sum vs ksWt = sum_list (map (\<lambda>v. exp (ksWt * (v - ks_max vs))) vs)"

definition ksAggregation :: "TacsScalar list \<Rightarrow> nat \<Rightarrow> TacsScalar \<Rightarrow> TacsScalar" where
  "ksAggregation f numVals ksWt =
     (let vs = take numVals f in ks_max vs + (1 / ksWt) * ln (ks_sum vs ksWt))"

definition ksAggregationSens ::
  "TacsScalar list \<Rightarrow> nat \<Rightarrow> TacsScalar \<Rightarrow> TacsScalar \<times> TacsScalar list" where
  "ksAggregationSens f numVals ksWt =
     (let vs = take numVals f
      in (ks_max vs + (1 / ksWt) * ln (ks_sum vs ksWt),
          map (\<lambda>v. exp (ksWt * (v - ks_max vs)) / ks_sum vs ksWt) vs))"

section \<open>Trained regression model\<close>

text \<open>
  \<open>TACSGaussianProcessModel\<close>: the training inputs (row-major, \<open>n_train\<close> rows of
  \<open>n_param\<close> entries), the coefficients \<open>alpha\<close>, and the two virtual methods
  \<open>kernel\<close> and \<open>kernelSens\<close> that a concrete model supplies.
\<close>

record GaussianProcessModel =
  n_train :: nat
  n_param :: nat
  Xtrain :: "TacsScalar list"
  alpha :: "TacsScalar list"
  kernel :: "TacsScalar list \<Rightarrow> TacsScalar list \<Rightarrow> TacsScalar"
  kernelSens ::
    "TacsScalar \<Rightarrow> TacsScalar list \<Rightarrow> TacsScalar list \<Rightarrow> TacsScalar list \<Rightarrow> TacsScalar list"

text \<open>The constructor copies \<open>n_train * n_param\<close> inputs and \<open>n_train\<close> coefficients.\<close>

definition TACSGaussianProcessModel ::
  "nat \<Rightarrow> nat \<Rightarrow> TacsScalar list \<Rightarrow> TacsScalar list
     \<Rightarrow> (TacsScalar list \<Rightarrow> TacsScalar list \<Rightarrow> TacsScalar)
     \<Rightarrow> (TacsScalar \<Rightarrow> TacsScalar list \<Rightarrow> TacsScalar list \<Rightarrow> TacsScalar list \<Rightarrow> TacsScalar list)
     \<Rightarrow> GaussianProcessModel" where
  "TACSGaussianProcessModel ntrain nparam X a k ksens =
     \<lparr> n_train = ntrain, n_param = nparam,
       Xtrain = take (ntrain * nparam) X, alpha = take ntrain a,
       kernel = k, kernelSens = ksens \<rparr>"

text \<open>
  \<open>loc_Xtrain = &Xtrain[n_param * itrain]\<close>: the kernel receives a pointer to the first
  entry of training row \<open>itrain\<close>.
\<close>

definition loc_Xtrain :: "GaussianProcessModel \<Rightarrow> nat \<Rightarrow> TacsScalar list" where
  "loc_Xtrain gp itrain = drop (n_param gp * itrain) (Xtrain gp)"

definition predictMeanTestData :: "GaussianProcessModel \<Rightarrow> TacsScalar list \<Rightarrow> TacsScalar" where
  "predictMeanTestData gp Xtest =
     fold (\<lambda>itrain Ytest. Ytest + kernel gp Xtest (loc_Xtrain gp itrain) * alpha gp ! itrain)
       [0..<n_train gp] 0"

text \<open>
  \<open>predictMeanTestDataSens\<close> clears the first \<open>n_param\<close> entries of \<open>Xtestsens\<close>
  with \<open>memset\<close> and then lets \<open>kernelSens\<close> add each training point's share.
  It returns the prediction and the updated \<open>Xtestsens\<close>.
\<close>

definition predictMeanTestDataSens ::
  "GaussianProcessModel \<Rightarrow> TacsScalar \<Rightarrow> TacsScalar list \<Rightarrow> TacsScalar list
     \<Rightarrow> TacsScalar \<times> TacsScalar list" where
  "predictMeanTestDataSens gp Ysens Xtest Xtestsens =
     fold (\<lambda>itrain (Ytest, Xs).
             (Ytest + kernel gp Xtest (loc_Xtrain gp itrain) * alpha gp ! itrain,
              kernelSens gp (Ysens * alpha gp ! itrain) Xtest (loc_Xtrain gp itrain) Xs))
       [0..<n_train gp] (0, memset_zero (n_param gp) Xtestsens)"

subsection \<open>The axial kernel\<close>

text \<open>
  The smooth gates \<open>soft_relu\<close>, \<open>soft_abs\<close> and their derivatives, and the sharpness
  \<open>ks\<close> of the model, are declared outside the source files; the kernel takes them as
  parameters.
\<close>

record soft_functions =
  soft_relu :: "TacsScalar \<Rightarrow> TacsScalar \<Rightarrow> TacsScalar"
  soft_relu_sens :: "TacsScalar \<Rightarrow> TacsScalar \<Rightarrow> TacsScalar"
  soft_abs :: "TacsScalar \<Rightarrow> TacsScalar \<Rightarrow> TacsScalar"
  soft_abs_sens :: "TacsScalar \<Rightarrow> TacsScalar \<Rightarrow> TacsScalar"

definition axial_kernel ::
  "soft_functions \<Rightarrow> TacsScalar \<Rightarrow> TacsScalar list \<Rightarrow> TacsScalar list \<Rightarrow> TacsScalar" where
  "axial_kernel sf ks Xtest Xtrn =
     (let kernel0 = 1 + Xtest ! 0 * Xtrn ! 0;
          kernel1_1 = 0.1 + soft_relu sf (- (Xtest ! 1)) ks * soft_relu sf (- (Xtrn ! 1)) ks;
          d1 = Xtest ! 1 - Xtrn ! 1;
          one = 1;
          fact1 = soft_relu sf (one - soft_abs sf (Xtest ! 1) ks) ks;
          fact2 = soft_relu sf (one - soft_abs sf (Xtrn ! 1) ks) ks;
          kernel1_2 = 1 + 0.02 * exp (- 0.5 * (d1 * d1) / 0.2 / 0.2) * fact1 * fact2;
          d2 = Xtest ! 2 - Xtrn ! 2;
          kernel2 = 1 + 0.5 * Xtest ! 2 * Xtrn ! 2 + 0.1 * exp (- 0.5 * d2 * d2 / 3 / 3);
          d3 = Xtest ! 3 - Xtrn ! 3;
          linearTerm = 1 + 0.2 * Xtest ! 3 * Xtrn ! 3;
          kernel3 = linearTerm * linearTerm + 0.1 * exp (- 0.5 * d3 * d3 / 3 / 3)
      in kernel1_1 * (kernel0 + kernel2 + kernel3) + kernel1_2 * kernel0 * kernel2 * kernel3)"

text \<open>The \<open>jacobian\<close> array that \<open>kernelSens\<close> fills before it scatters.\<close>

definition axial_jacobian ::
  "soft_functions \<Rightarrow> TacsScalar \<Rightarrow> TacsScalar list \<Rightarrow> TacsScalar list \<Rightarrow> TacsScalar list" where
  "axial_jacobian sf ks Xtest Xtrn =
     (let kernel0 = 1 + Xtest ! 0 * Xtrn ! 0;
          kernel1_1 = 0.1 + soft_relu sf (- (Xtest ! 1)) ks * soft_relu sf (- (Xtrn ! 1)) ks;
          d1 = Xtest ! 1 - Xtrn ! 1;
          one = 1;
          fact1 = soft_relu sf (one - soft_abs sf (Xtest ! 1) ks) ks;
          fact2 = soft_relu sf (one - soft_abs sf (Xtrn ! 1) ks) ks;
          SE_term1 = 0.02 * exp (- 0.5 * (d1 * d1) / 0.2 / 0.2) * fact1 * fact2;
          kernel1_2 = 1 + SE_term1;
          d2 = Xtest ! 2 - Xtrn ! 2;
          SEterm2 = 0.1 * exp (- 0.5 * d2 * d2 / 3 / 3);
          kernel2 = 1 + 0.5 * Xtest ! 2 * Xtrn ! 2 + SEterm2;
          d3 = Xtest ! 3 - Xtrn ! 3;
          linearTerm = 1 + 0.2 * Xtest ! 3 * Xtrn ! 3;
          SEterm3 = 0.1 * exp (- 0.5 * d3 * d3 / 3 / 3);
          kernel3 = linearTerm * linearTerm + SEterm3;
          kernel0sens = Xtrn ! 0;
          jacobian0 = kernel0sens * (kernel1_1 + kernel1_2 * kernel2 * kernel3);
          k1_1sens = soft_relu_sens sf (- (Xtest ! 1)) ks * (- 1) * soft_relu sf (- (Xtrn ! 1)) ks;
          k1_2sens = SE_term1 * (- d1) / 0.2 / 0.2
                     + SE_term1 / soft_relu sf (one - soft_abs sf (Xtest ! 1) ks) ks
                       * soft_relu_sens sf (one - soft_abs sf (Xtest ! 1) ks) ks
                       * (- soft_abs_sens sf (Xtest ! 1) ks);
          jacobian1 = k1_1sens * (kernel0 + kernel2 + kernel3)
                      + k1_2sens * kernel0 * kernel2 * kernel3;
          kernel2sens = 0.5 * Xtrn ! 2 + SEterm2 * (- d2) / 3 / 3;
          jacobian2 = kernel2sens * (kernel1_1 + kernel1_2 * kernel0 * kernel3);
          kernel3sens = 0.2 * Xtrn ! 3 * linearTerm * 2 + SEterm3 * (- d3) / 3 / 3;
          jacobian3 = kernel3sens * (kernel1_1 + kernel1_2 * kernel0 * kernel2)
      in [jacobian0, jacobian1, jacobian2, jacobian3])"

text \<open>\<open>for (ii = 0; ii < 4; ii++) Xtestsens[ii] += ksens * jacobian[ii];\<close>\<close>

definition axial_kernelSens ::
  "soft_functions \<Rightarrow> TacsScalar \<Rightarrow> TacsScalar \<Rightarrow> TacsScalar list \<Rightarrow> TacsScalar list
     \<Rightarrow> TacsScalar list \<Rightarrow> TacsScalar list" where
  "axial_kernelSens sf ks ksens Xtest Xtrn Xtestsens =
     (let jacobian = axial_jacobian sf ks Xtest Xtrn
      in fold (\<lambda>ii Xs. Xs[ii := Xs ! ii + ksens * jacobian ! ii]) [0..<4] Xtestsens)"

definition TACSAxialGaussianProcessModel ::
  "soft_functions \<Rightarrow> TacsScalar \<Rightarrow> nat \<Rightarrow> nat \<Rightarrow> TacsScalar list \<Rightarrow> TacsScalar list
     \<Rightarrow> GaussianProcessModel" where
  "TACSAxialGaussianProcessModel sf ks ntrain nparam X a =
     TACSGaussianProcessModel ntrain nparam X a (axial_kernel sf ks) (axial_kernelSens sf ks)"

text \<open>
  One instance of the smooth gates, for evaluating the kernel at concrete points: the
  softplus \<open>log (1 + exp (rho * x)) / rho\<close> and the smooth absolute value
  \<open>log (exp (- rho * x) + exp (rho * x)) / rho\<close>, with their derivatives.
\<close>

definition softplus_relu :: "TacsScalar \<Rightarrow> TacsScalar \<Rightarrow> TacsScalar" where
  "softplus_relu x rho = 1 / rho * ln (1 + exp (rho * x))"

definition softplus_relu_sens :: "TacsScalar \<Rightarrow> TacsScalar \<Rightarrow> TacsScalar" where
  "softplus_relu_sens x rho = exp (rho * x) / (1 + exp (rho * x))"

definition logcosh_abs :: "TacsScalar \<Rightarrow> TacsScalar \<Rightarrow> TacsScalar" where
  "logcosh_abs x rho = 1 / rho * ln (exp (- rho * x) + exp (rho * x))"

definition logcosh_abs_sens :: "TacsScalar \<Rightarrow> TacsScalar \<Rightarrow> TacsScalar" where
  "logcosh_abs_sens x rho = (exp (rho * x) - exp (- rho * x)) / (exp (- rho * x) + exp (rho * x))"

definition smooth_gates :: soft_functions where
  "smooth_gates = \<lparr> soft_relu = softplus_relu, soft_relu_sens = softplus_relu_sens,
                     soft_abs = logcosh_abs, soft_abs_sens = logcosh_abs_sens \<rparr>"

section \<open>The stiffened-shell constitutive object\<close>

text \<open>
  The fields of \<open>TACSGPBladeStiffenedShellConstitutive\<close> (its own and the inherited
  ones) that the modelled methods read or write.  A surrogate pointer that is null is
  \<open>None\<close>.
\<close>

record GPBladeStiffenedShell =
  panelLength :: TacsScalar
  stiffenerPitch :: TacsScalar
  panelThick :: TacsScalar
  stiffenerHeight :: TacsScalar
  stiffenerThick :: TacsScalar
  panelWidth :: TacsScalar
  panelWidthNum :: int
  panelWidthLocalNum :: int
  panelWidthLowerBound :: TacsScalar
  panelWidthUpperBound :: TacsScalar
  numDesignVars :: int
  numGeneralDV :: int
  panelDVStartNum :: nat
  stiffenerDVStartNum :: nat
  numPanelPlies :: nat
  panelQMats :: "TacsScalar list"
  panelPlyFracs :: "TacsScalar list"
  numStiffenerPlies :: nat
  stiffenerQMats :: "TacsScalar list"
  stiffenerPlyFracs :: "TacsScalar list"
  ksWeight :: TacsScalar
  axialGP :: "GaussianProcessModel option"
  shearGP :: "GaussianProcessModel option"
  cripplingGP :: "GaussianProcessModel option"

text \<open>
  The constructor runs after the base-class constructor, whose result is \<open>base\<close>: it
  registers the panel width as one more design variable when it has a global number.
\<close>

definition TACSGPBladeStiffenedShellConstitutive ::
  "GPBladeStiffenedShell \<Rightarrow> TacsScalar \<Rightarrow> int \<Rightarrow> GaussianProcessModel option
     \<Rightarrow> GaussianProcessModel option \<Rightarrow> GaussianProcessModel option \<Rightarrow> GPBladeStiffenedShell" where
  "TACSGPBladeStiffenedShellConstitutive base pWidth pWidthNum aGP sGP cGP =
     (let st1 = base\<lparr> panelWidth := pWidth, panelWidthNum := pWidthNum,
                       panelWidthLocalNum := - 1 \<rparr>;
          st2 = (if pWidthNum \<ge> 0
                 then st1\<lparr> panelWidthLocalNum := numDesignVars st1,
                           numDesignVars := numDesignVars st1 + 1,
                           numGeneralDV := numGeneralDV st1 + 1 \<rparr>
                 else st1)
      in st2\<lparr> panelWidthLowerBound := 0, panelWidthUpperBound := 10 ^ 20,
               axialGP := aGP, shearGP := sGP, cripplingGP := cGP \<rparr>)"

text \<open>
  Collaborators: the inherited methods and class constants that the modelled methods call
  and whose code is outside the source files.  Each is a parameter; a method that reads
  the object takes it as its first argument.  \<open>extractTangentStiffness\<close> hands out
  pointers to the \<open>A\<close> and \<open>D\<close> blocks of a stiffness array.
\<close>

record collaborators =
  NUM_STRESSES :: nat
  NUM_CF_MODES :: nat
  computePanelFailure :: "GPBladeStiffenedShell \<Rightarrow> TacsScalar list \<Rightarrow> TacsScalar"
  evalPanelFailureStrainSens ::
    "GPBladeStiffenedShell \<Rightarrow> TacsScalar list \<Rightarrow> TacsScalar \<times> TacsScalar list"
  transformStrain :: "GPBladeStiffenedShell \<Rightarrow> TacsScalar list \<Rightarrow> TacsScalar list"
  transformStrainSens :: "GPBladeStiffenedShell \<Rightarrow> TacsScalar list \<Rightarrow> TacsScalar list"
  computeStiffenerFailure :: "GPBladeStiffenedShell \<Rightarrow> TacsScalar list \<Rightarrow> TacsScalar"
  evalStiffenerFailureStrainSens ::
    "GPBladeStiffenedShell \<Rightarrow> TacsScalar list \<Rightarrow> TacsScalar \<times> TacsScalar list"
  computePanelStiffness :: "GPBladeStiffenedShell \<Rightarrow> TacsScalar list"
  computeStiffenerStiffness :: "GPBladeStiffenedShell \<Rightarrow> TacsScalar list"
  extractTangentStiffness_A :: "TacsScalar list \<Rightarrow> TacsScalar list"
  extractTangentStiffness_D :: "TacsScalar list \<Rightarrow> TacsScalar list"
  computePanelStress :: "GPBladeStiffenedShell \<Rightarrow> TacsScalar list \<Rightarrow> TacsScalar list"
  computeStiffenerStress :: "GPBladeStiffenedShell \<Rightarrow> TacsScalar list \<Rightarrow> TacsScalar list"
  bucklingEnvelope :: "TacsScalar \<Rightarrow> TacsScalar \<Rightarrow> TacsScalar \<Rightarrow> TacsScalar \<Rightarrow> TacsScalar"
  bucklingEnvelopeSens ::
    "TacsScalar \<Rightarrow> TacsScalar \<Rightarrow> TacsScalar \<Rightarrow> TacsScalar
       \<Rightarrow> TacsScalar \<times> TacsScalar \<times> TacsScalar \<times> TacsScalar \<times> TacsScalar"
  computeEffectiveModulii ::
    "nat \<Rightarrow> TacsScalar list \<Rightarrow> TacsScalar list \<Rightarrow> TacsScalar \<times> TacsScalar"
  computeStiffenerArea :: "GPBladeStiffenedShell \<Rightarrow> TacsScalar"
  computeStiffenerIzz :: "GPBladeStiffenedShell \<Rightarrow> TacsScalar"
  addStiffenerStressDVSens ::
    "GPBladeStiffenedShell \<Rightarrow> TacsScalar \<Rightarrow> TacsScalar list \<Rightarrow> TacsScalar list
       \<Rightarrow> TacsScalar list \<Rightarrow> TacsScalar list"
  addStiffenerFailureDVSens ::
    "GPBladeStiffenedShell \<Rightarrow> TacsScalar list \<Rightarrow> TacsScalar \<Rightarrow> TacsScalar list \<Rightarrow> TacsScalar list"
  base_setDesignVars ::
    "GPBladeStiffenedShell \<Rightarrow> int \<Rightarrow> int \<Rightarrow> TacsScalar list \<Rightarrow> GPBladeStiffenedShell"
  base_getDesignVars ::
    "GPBladeStiffenedShell \<Rightarrow> int \<Rightarrow> int \<Rightarrow> TacsScalar list \<Rightarrow> TacsScalar list"

text \<open>
  Modelled from the spec: the failure vector has five entries (panel material, stiffener
  material, global buckling, local buckling, crippling); the constant \<open>NUM_FAILURES\<close> is
  declared outside the source files.
\<close>

definition NUM_FAILURES :: nat where
  "NUM_FAILURES = 5"

subsection \<open>Forward nondimensional parameters\<close>

text \<open>
  Modelled from the spec: \<open>computeAffineAspectRatio\<close>, \<open>computeGeneralizedRigidity\<close> and
  \<open>computeGeneralizedPoissonsRatio\<close> are defined outside the source files.  The table of
  section 4.3 gives \<open>(a/b) * (D22/D11)^0.25\<close>, \<open>(D12 + 2*D66) / sqrt (D11*D22)\<close> and
  \<open>(D12 + 2*D66) / D12\<close>, as do the comments of their sensitivity routines.
\<close>

definition computeAffineAspectRatio ::
  "TacsScalar \<Rightarrow> TacsScalar \<Rightarrow> TacsScalar \<Rightarrow> TacsScalar \<Rightarrow> TacsScalar" where
  "computeAffineAspectRatio D11 D22 a b = a / b * (D22 / D11) powr 0.25"

definition computeGeneralizedRigidity ::
  "TacsScalar \<Rightarrow> TacsScalar \<Rightarrow> TacsScalar \<Rightarrow> TacsScalar \<Rightarrow> TacsScalar" where
  "computeGeneralizedRigidity D11 D22 D12 D66 = (D12 + 2 * D66) / sqrt (D11 * D22)"

definition computeGeneralizedPoissonsRatio :: "TacsScalar \<Rightarrow> TacsScalar \<Rightarrow> TacsScalar" where
  "computeGeneralizedPoissonsRatio D12 D66 = (D12 + 2 * D66) / D12"

definition computeStiffenerAreaRatio :: "collaborators \<Rightarrow> GPBladeStiffenedShell \<Rightarrow> TacsScalar" where
  "computeStiffenerAreaRatio C st =
     (let E1p = fst (computeEffectiveModulii C (numPanelPlies st) (panelQMats st) (panelPlyFracs st));
          E1s = fst (computeEffectiveModulii C (numStiffenerPlies st) (stiffenerQMats st)
                       (stiffenerPlyFracs st));
          As = computeStiffenerArea C st
      in E1s * As / (E1p * stiffenerPitch st * panelThick st))"

definition computeStiffenerStiffnessRatio ::
  "collaborators \<Rightarrow> GPBladeStiffenedShell \<Rightarrow> TacsScalar \<Rightarrow> TacsScalar" where
  "computeStiffenerStiffnessRatio C st D11 =
     (let E1p = fst (computeEffectiveModulii C (numPanelPlies st) (panelQMats st) (panelPlyFracs st));
          E1s = fst (computeEffectiveModulii C (numStiffenerPlies st) (stiffenerQMats st)
                       (stiffenerPlyFracs st));
          Is = computeStiffenerIzz C st
      in E1s * Is / D11 / stiffenerThick st)"

section \<open>Coupled shear-mode solver\<close>

text \<open>
  The Newton loop of \<open>nondimShearParams\<close> tests \<open>abs(residual) > 1e-10\<close>.  A
  not-a-number residual makes that test false, so the loop also stops there; the model
  therefore tracks where the arithmetic leaves the finite numbers.  A value of type
  \<open>TacsScalar option\<close> is \<open>None\<close> when the machine value is not a finite number.

  \<open>pow(x, y)\<close> with a fractional exponent \<open>y\<close> and \<open>sqrt(x)\<close> are not-a-number
  for a negative \<open>x\<close>.
\<close>

definition pow_frac :: "TacsScalar \<Rightarrow> TacsScalar \<Rightarrow> TacsScalar option" where
  "pow_frac x y = (if x < 0 then None else Some (x powr y))"

definition sqrt_c :: "TacsScalar \<Rightarrow> TacsScalar option" where
  "sqrt_c x = (if x < 0 then None else Some (sqrt x))"

definition lam2Constraint :: "TacsScalar \<Rightarrow> TacsScalar \<Rightarrow> TacsScalar \<Rightarrow> TacsScalar option" where
  "lam2Constraint lam2sq xi gamma =
     do {
       lam1bar \<leftarrow> pow_frac (1 + 2 * lam2sq * xi + lam2sq * lam2sq + gamma) 0.25;
       let lam1sq = lam1bar * lam1bar;
       let lam14 = lam1sq * lam1sq;
       root \<leftarrow> sqrt_c ((3 + xi) / 9 + 4 / 3 * lam1sq * xi + 4 / 3 * lam14);
       Some (lam2sq + lam1sq + xi / 3 - root)
     }"

text \<open>
  The derivative divides by \<open>temp\<close> and by \<open>term2\<close>.  With \<open>temp = 0\<close> the factor
  \<open>lam1 * 0.25 / temp\<close> is \<open>0 / 0\<close>, not a number.  With \<open>term2 = 0\<close> the quotient
  \<open>0.5 / term2\<close> is infinite; multiplied by a zero factor it is not a number, otherwise
  the derivative is infinite.
\<close>

datatype fp_value = Finite TacsScalar | Infinite | NotANumber

definition lam2ConstraintDeriv :: "TacsScalar \<Rightarrow> TacsScalar \<Rightarrow> TacsScalar \<Rightarrow> fp_value" where
  "lam2ConstraintDeriv lam2sq xi gamma =
     (let temp = 1 + 2 * lam2sq * xi + lam2sq * lam2sq + gamma
      in case pow_frac temp 0.25 of
           None \<Rightarrow> NotANumber
         | Some lam1 \<Rightarrow>
             (let lam1sq = lam1 * lam1;
                  lam14 = lam1sq * lam1sq
              in case sqrt_c ((3 + xi) / 9 + 4 / 3 * lam1sq * xi + 4 / 3 * lam14) of
                   None \<Rightarrow> NotANumber
                 | Some term2 \<Rightarrow>
                     if temp = 0 then NotANumber
                     else
                       (let dlam1_dlam2sq = lam1 * 0.25 / temp * (2 + 2 * lam2sq);
                            factor = 2 * lam1 * xi + 4 * lam1 * lam1sq
                        in if term2 = 0
                           then (if factor = 0 \<or> dlam1_dlam2sq = 0 then NotANumber else Infinite)
                           else
                             (let dfdlam1 = 2 * lam1 - 0.5 / term2 * 4 / 3 * factor
                              in Finite (1 + dfdlam1 * dlam1_dlam2sq)))))"

text \<open>
  One pass of the \<open>while\<close> loop at the current \<open>lam2bar_sq\<close>.  \<open>Exit\<close> carries the
  final \<open>lam2bar_sq\<close>:
  \<^item> a not-a-number residual, or a residual within the tolerance, leaves the loop at the
    current value;
  \<^item> otherwise the update \<open>lam2bar_sq -= residual / derivative\<close> runs.  A zero or
    not-a-number derivative makes \<open>lam2bar_sq\<close> infinite or not a number, the next
    residual is not a number and the loop stops with that value; an infinite derivative
    leaves \<open>lam2bar_sq\<close> as it is.
\<close>

datatype newton_step = Exit "TacsScalar option" | Update TacsScalar

definition newton_body :: "TacsScalar \<Rightarrow> TacsScalar \<Rightarrow> TacsScalar \<Rightarrow> newton_step" where
  "newton_body lam2bar_sq xi gamma =
     (case lam2Constraint lam2bar_sq xi gamma of
        None \<Rightarrow> Exit (Some lam2bar_sq)
      | Some res \<Rightarrow>
          if \<bar>res\<bar> > 1 / 10 ^ 10
          then (case lam2ConstraintDeriv lam2bar_sq xi gamma of
                  Finite d \<Rightarrow> if d = 0 then Exit None else Update (lam2bar_sq - res / d)
                | Infinite \<Rightarrow> Update lam2bar_sq
                | NotANumber \<Rightarrow> Exit None)
          else Exit (Some lam2bar_sq))"

partial_function (option) newton_lam2bar_sq ::
  "TacsScalar \<Rightarrow> TacsScalar \<Rightarrow> TacsScalar \<Rightarrow> TacsScalar option option" where
  "newton_lam2bar_sq lam2bar_sq xi gamma =
     (case newton_body lam2bar_sq xi gamma of
        Exit final \<Rightarrow> Some final
      | Update lam2bar_sq' \<Rightarrow> newton_lam2bar_sq lam2bar_sq' xi gamma)"

text \<open>
  \<open>nondimShearParams\<close> starts the loop at \<open>lam2bar_sq = 0\<close> and writes
  \<open>lam1bar = pow(1 + 2*lam2bar_sq*xi + lam2bar_sq^2 + gamma, 0.25)\<close> and
  \<open>lam2bar = pow(lam2bar_sq, 0.5)\<close>.  The result is \<open>None\<close> when the loop never ends.
\<close>

definition lam1bar_of :: "TacsScalar option \<Rightarrow> TacsScalar \<Rightarrow> TacsScalar \<Rightarrow> TacsScalar option" where
  "lam1bar_of final xi gamma =
     (case final of
        None \<Rightarrow> None
      | Some lam2bar_sq \<Rightarrow>
          pow_frac (1 + 2 * lam2bar_sq * xi + lam2bar_sq * lam2bar_sq + gamma) 0.25)"

definition lam2bar_of :: "TacsScalar option \<Rightarrow> TacsScalar option" where
  "lam2bar_of final = (case final of None \<Rightarrow> None | Some lam2bar_sq \<Rightarrow> pow_frac lam2bar_sq 0.5)"

definition nondimShearParams ::
  "TacsScalar \<Rightarrow> TacsScalar \<Rightarrow> (TacsScalar option \<times> TacsScalar option) option" where
  "nondimShearParams xi gamma =
     map_option (\<lambda>final. (lam1bar_of final xi gamma, lam2bar_of final))
       (newton_lam2bar_sq 0 xi gamma)"

text \<open>
  The values of \<open>lam2bar_sq\<close> that the loop passes through: \<open>newton_path xi gamma s s'\<close>
  holds when the loop, entered at \<open>s\<close>, reaches \<open>s'\<close> after finitely many updates.
\<close>

inductive newton_path :: "TacsScalar \<Rightarrow> TacsScalar \<Rightarrow> TacsScalar \<Rightarrow> TacsScalar \<Rightarrow> bool"
  for xi gamma where
  here: "newton_path xi gamma s s"
| step: "newton_body s xi gamma = Update s1 \<Longrightarrow> newton_path xi gamma s1 s'
         \<Longrightarrow> newton_path xi gamma s s'"

text \<open>
  The two radicands of the residual: the argument of the fourth root, and the argument of
  the square root once \<open>lam1bar^2\<close> is written as a square root.
\<close>

definition temp_of :: "TacsScalar \<Rightarrow> TacsScalar \<Rightarrow> TacsScalar \<Rightarrow> TacsScalar" where
  "temp_of s xi gamma = 1 + 2 * s * xi + s * s + gamma"

definition rad_of :: "TacsScalar \<Rightarrow> TacsScalar \<Rightarrow> TacsScalar \<Rightarrow> TacsScalar" where
  "rad_of s xi gamma = (3 + xi) / 9 + 4 / 3 * sqrt (temp_of s xi gamma) * xi
                        + 4 / 3 * temp_of s xi gamma"

section \<open>Critical load evaluator\<close>

text \<open>
  The surrogate input vector holds the four log-transformed parameters.  \<open>pow(x, 2.0)\<close>,
  \<open>pow(x, -2.0)\<close> and \<open>pow(x, 4.0)\<close> have whole exponents and are written with
  \<open>powi\<close>.  The array \<open>neg_N11crits\<close> is filled entry by entry in the mode loop.
\<close>

definition computeCriticalGlobalAxialLoad ::
  "collaborators \<Rightarrow> GPBladeStiffenedShell \<Rightarrow> TacsScalar \<Rightarrow> TacsScalar \<Rightarrow> TacsScalar
     \<Rightarrow> TacsScalar \<Rightarrow> TacsScalar \<Rightarrow> TacsScalar \<Rightarrow> TacsScalar \<Rightarrow> TacsScalar \<Rightarrow> TacsScalar" where
  "computeCriticalGlobalAxialLoad C st D11 D22 b delta rho_0 xi gamma zeta =
     (case axialGP st of
        Some gp \<Rightarrow>
          (let dim_factor = pi * pi * sqrt (D11 * D22) / b / b / (1 + delta);
               Xtest = [ln xi, ln rho_0, ln (1 + gamma), ln zeta]
           in dim_factor * exp (predictMeanTestData gp Xtest))
      | None \<Rightarrow>
          (let neg_N11crits =
                 fold (\<lambda>m1 arr.
                         (let dim_factor = pi * pi * sqrt (D11 * D22) / b / b / (1 + delta);
                              nondim_factor = (1 + gamma) * (real m1 / rho_0) powi 2
                                              + (real m1 / rho_0) powi (- 2) + 2 * xi
                          in arr[m1 - 1 := - 1 * dim_factor * nondim_factor]))
                   [1..<NUM_CF_MODES C + 1] (replicate (NUM_CF_MODES C) 0);
               neg_N11crit = ksAggregation neg_N11crits (NUM_CF_MODES C) (ksWeight st)
           in - 1 * neg_N11crit))"

definition computeCriticalLocalAxialLoad ::
  "collaborators \<Rightarrow> GPBladeStiffenedShell \<Rightarrow> TacsScalar \<Rightarrow> TacsScalar \<Rightarrow> TacsScalar
     \<Rightarrow> TacsScalar \<Rightarrow> TacsScalar \<Rightarrow> TacsScalar" where
  "computeCriticalLocalAxialLoad C st D11 D22 rho_0 xi zeta =
     (case axialGP st of
        Some gp \<Rightarrow>
          (let dim_factor = pi * pi * sqrt (D11 * D22) / stiffenerPitch st / stiffenerPitch st;
               Xtest = [ln xi, ln rho_0, 0, ln zeta]
           in dim_factor * exp (predictMeanTestData gp Xtest))
      | None \<Rightarrow>
          (let neg_N11crits =
                 fold (\<lambda>m1 arr.
                         (let dim_factor = pi * pi * sqrt (D11 * D22)
                                           / stiffenerPitch st / stiffenerPitch st;
                              nondim_factor = (real m1 / rho_0) powi 2
                                              + (real m1 / rho_0) powi (- 2) + 2 * xi
                          in arr[m1 - 1 := - 1 * dim_factor * nondim_factor]))
                   [1..<NUM_CF_MODES C + 1] (replicate (NUM_CF_MODES C) 0);
               neg_N11crit = ksAggregation neg_N11crits (NUM_CF_MODES C) (ksWeight st)
           in - 1 * neg_N11crit))"

text \<open>
  The closed-form shear loads call the Newton solve.  Their result is \<open>None\<close> when the
  solve does not return or returns a \<open>lam1bar\<close> or \<open>lam2bar\<close> that is not a finite
  number (the load is then not a number either).
\<close>

definition shear_nondim_factor :: "TacsScalar \<Rightarrow> TacsScalar \<Rightarrow> TacsScalar \<Rightarrow> TacsScalar" where
  "shear_nondim_factor lam1 lam2 xi =
     (1 + lam1 powi 4 + 6 * (lam1 * lam2) powi 2 + lam2 powi 4 + 2 * xi)
     / (2 * lam1 * lam1 * lam2)"

definition computeCriticalGlobalShearLoad ::
  "GPBladeStiffenedShell \<Rightarrow> TacsScalar \<Rightarrow> TacsScalar \<Rightarrow> TacsScalar \<Rightarrow> TacsScalar
     \<Rightarrow> TacsScalar \<Rightarrow> TacsScalar \<Rightarrow> TacsScalar \<Rightarrow> TacsScalar option" where
  "computeCriticalGlobalShearLoad st D11 D22 b xi rho_0 gamma zeta =
     (case shearGP st of
        Some gp \<Rightarrow>
          (let dim_factor = pi * pi * (D11 * D22 * D22 * D22) powr 0.25 / b / b;
               Xtest = [ln xi, ln rho_0, ln (1 + gamma), ln zeta]
           in Some (dim_factor * exp (predictMeanTestData gp Xtest)))
      | None \<Rightarrow>
          do {
            (lam1o, lam2o) \<leftarrow> nondimShearParams xi gamma;
            lam1 \<leftarrow> lam1o;
            lam2 \<leftarrow> lam2o;
            let dim_factor = pi * pi * (D11 * D22 * D22 * D22) powr 0.25 / b / b;
            let nondim_factor = shear_nondim_factor lam1 lam2 xi;
            Some (dim_factor * nondim_factor)
          })"

definition computeCriticalLocalShearLoad ::
  "GPBladeStiffenedShell \<Rightarrow> TacsScalar \<Rightarrow> TacsScalar \<Rightarrow> TacsScalar \<Rightarrow> TacsScalar
     \<Rightarrow> TacsScalar \<Rightarrow> TacsScalar option" where
  "computeCriticalLocalShearLoad st D11 D22 xi rho_0 zeta =
     (case shearGP st of
        Some gp \<Rightarrow>
          (let s_p = stiffenerPitch st;
               dim_factor = pi * pi * (D11 * D22 * D22 * D22) powr 0.25 / s_p / s_p;
               Xtest = [ln xi, ln rho_0, 0, ln zeta]
           in Some (dim_factor * exp (predictMeanTestData gp Xtest)))
      | None \<Rightarrow>
          do {
            (lam1o, lam2o) \<leftarrow> nondimShearParams xi 0;
            lam1 \<leftarrow> lam1o;
            lam2 \<leftarrow> lam2o;
            let dim_factor = pi * pi * (D11 * D22 * D22 * D22) powr 0.25
                             / stiffenerPitch st / stiffenerPitch st;
            let nondim_factor = shear_nondim_factor lam1 lam2 xi;
            Some (dim_factor * nondim_factor)
          })"

definition computeStiffenerCripplingLoad ::
  "GPBladeStiffenedShell \<Rightarrow> TacsScalar \<Rightarrow> TacsScalar \<Rightarrow> TacsScalar \<Rightarrow> TacsScalar
     \<Rightarrow> TacsScalar \<Rightarrow> TacsScalar \<Rightarrow> TacsScalar" where
  "computeStiffenerCripplingLoad st D11 D22 xi rho_0 genPoiss zeta =
     (case cripplingGP st of
        Some gp \<Rightarrow>
          (let dim_factor = pi * pi * sqrt (D11 * D22) / stiffenerHeight st / stiffenerHeight st;
               Xtest = [ln xi, ln rho_0, ln genPoiss, ln zeta]
           in dim_factor * exp (predictMeanTestData gp Xtest))
      | None \<Rightarrow>
          (let dim_factor = pi * pi * sqrt (D11 * D22) / stiffenerHeight st / stiffenerHeight st;
               nondim_factor = (0.476 - 0.56 * (genPoiss - 0.2)) * xi
           in dim_factor * nondim_factor))"

section \<open>Failure evaluator\<close>

text \<open>
  \<open>computeFailureValues\<close> writes the five failure ratios into \<open>fails\<close> and returns
  their KS aggregate; the model returns both.  The result is \<open>None\<close> when a closed-form
  shear load has no finite value.
\<close>

definition computeFailureValues ::
  "collaborators \<Rightarrow> GPBladeStiffenedShell \<Rightarrow> TacsScalar list
     \<Rightarrow> (TacsScalar \<times> TacsScalar list) option" where
  "computeFailureValues C st e =
     (let fails0 = computePanelFailure C st e;
          stiffenerStrain = transformStrain C st e;
          fails1 = computeStiffenerFailure C st stiffenerStrain;
          panelStiffness = computePanelStiffness C st;
          Ap = extractTangentStiffness_A C panelStiffness;
          Dp = extractTangentStiffness_D C panelStiffness;
          panelStress = computePanelStress C st e;
          D11p = Dp ! 0; D12p = Dp ! 1; D22p = Dp ! 3; D66p = Dp ! 5;
          A11p = Ap ! 0; A66p = Ap ! 5;
          a = panelLength st;
          b = panelWidth st;
          delta = computeStiffenerAreaRatio C st;
          rho0Panel = computeAffineAspectRatio D11p D22p a b;
          xiPanel = computeGeneralizedRigidity D11p D22p D12p D66p;
          gamma = computeStiffenerStiffnessRatio C st D11p;
          zetaPanel = computeTransverseShearParameter A66p A11p b (panelThick st);
          N1CritGlobal = computeCriticalGlobalAxialLoad C st D11p D22p b delta rho0Panel
                           xiPanel gamma zetaPanel
      in do {
           N12CritGlobal \<leftarrow> computeCriticalGlobalShearLoad st D11p D22p b xiPanel rho0Panel
                              gamma zetaPanel;
           let fails2 = bucklingEnvelope C (- (panelStress ! 0)) N1CritGlobal
                          (panelStress ! 2) N12CritGlobal;
           let N1CritLocal = computeCriticalLocalAxialLoad C st D11p D22p rho0Panel xiPanel
                               zetaPanel;
           N12CritLocal \<leftarrow> computeCriticalLocalShearLoad st D11p D22p xiPanel rho0Panel
                             zetaPanel;
           let fails3 = bucklingEnvelope C (- (panelStress ! 0)) N1CritLocal
                          (panelStress ! 2) N12CritLocal;
           let stiffenerStiffness = computeStiffenerStiffness C st;
           let As = extractTangentStiffness_A C stiffenerStiffness;
           let Ds = extractTangentStiffness_D C stiffenerStiffness;
           let stiffenerStress = computeStiffenerStress C st stiffenerStrain;
           let D11s = Ds ! 0; let D12s = Ds ! 1; let D22s = Ds ! 3; let D66s = Ds ! 5;
           let A11s = As ! 0; let A66s = As ! 5;
           let bStiff = stiffenerHeight st;
           let hStiff = stiffenerThick st;
           let rho0Stiff = computeAffineAspectRatio D11s D22s a bStiff;
           let xiStiff = computeGeneralizedRigidity D11s D22s D12s D66s;
           let genPoiss = computeGeneralizedPoissonsRatio D12s D66s;
           let zetaStiff = computeTransverseShearParameter A66s A11s bStiff hStiff;
           let N1CritCrippling = computeStiffenerCripplingLoad st D11s D22s xiStiff rho0Stiff
                                   genPoiss zetaStiff;
           let N1 = - (stiffenerStress ! 0);
           let fails4 = N1 / N1CritCrippling;
           let fails = [fails0, fails1, fails2, fails3, fails4];
           Some (ksAggregation fails NUM_FAILURES (ksWeight st), fails)
         })"

text \<open>
  \<open>evalFailureStrainSens\<close> returns the aggregate and the array \<open>sens\<close> after its
  writes.  The arguments \<open>elemIndex\<close>, \<open>pt\<close> and \<open>X\<close> are not read.
\<close>

definition evalFailureStrainSens ::
  "collaborators \<Rightarrow> GPBladeStiffenedShell \<Rightarrow> TacsScalar list \<Rightarrow> TacsScalar list
     \<Rightarrow> (TacsScalar \<times> TacsScalar list) option" where
  "evalFailureStrainSens C st e sens =
     (let sens1 = memset_zero (NUM_STRESSES C) sens;
          (fails0, panelFailSens) = evalPanelFailureStrainSens C st e;
          stiffenerStrain = transformStrain C st e;
          (fails1, stiffenerStrainSens) = evalStiffenerFailureStrainSens C st stiffenerStrain;
          stiffenerFailSens = transformStrainSens C st stiffenerStrainSens;
          panelStiffness = computePanelStiffness C st;
          Ap = extractTangentStiffness_A C panelStiffness;
          Dp = extractTangentStiffness_D C panelStiffness;
          panelStress = computePanelStress C st e;
          D11p = Dp ! 0; D12p = Dp ! 1; D22p = Dp ! 3; D66p = Dp ! 5;
          A11p = Ap ! 0; A66p = Ap ! 5;
          a = panelLength st;
          b = panelWidth st;
          delta = computeStiffenerAreaRatio C st;
          rho0Panel = computeAffineAspectRatio D11p D22p a b;
          xiPanel = computeGeneralizedRigidity D11p D22p D12p D66p;
          gamma = computeStiffenerStiffnessRatio C st D11p;
          zetaPanel = computeTransverseShearParameter A66p A11p b (panelThick st);
          N1CritGlobal = computeCriticalGlobalAxialLoad C st D11p D22p b delta rho0Panel
                           xiPanel gamma zetaPanel
      in do {
           N12CritGlobal \<leftarrow> computeCriticalGlobalShearLoad st D11p D22p b xiPanel rho0Panel
                              gamma zetaPanel;
           let (fails2, N1GlobalSens, N1CritGlobalSens, N12GlobalSens, N12CritGlobalSens) =
                 bucklingEnvelopeSens C (- (panelStress ! 0)) N1CritGlobal
                   (panelStress ! 2) N12CritGlobal;
           let N1CritLocal = computeCriticalLocalAxialLoad C st D11p D22p rho0Panel xiPanel
                               zetaPanel;
           N12CritLocal \<leftarrow> computeCriticalLocalShearLoad st D11p D22p xiPanel rho0Panel
                             zetaPanel;
           let (fails3, N1LocalSens, N1CritLocalSens, N12LocalSens, N12CritLocalSens) =
                 bucklingEnvelopeSens C (- (panelStress ! 0)) N1CritLocal
                   (panelStress ! 2) N12CritLocal;
           let stiffenerStiffness = computeStiffenerStiffness C st;
           let As = extractTangentStiffness_A C stiffenerStiffness;
           let Ds = extractTangentStiffness_D C stiffenerStiffness;
           let stiffenerStress = computeStiffenerStress C st stiffenerStrain;
           let D11s = Ds ! 0; let D12s = Ds ! 1; let D22s = Ds ! 3; let D66s = Ds ! 5;
           let A11s = As ! 0; let A66s = As ! 5;
           let bStiff = stiffenerHeight st;
           let hStiff = stiffenerThick st;
           let rho0Stiff = computeAffineAspectRatio D11s D22s a bStiff;
           let xiStiff = computeGeneralizedRigidity D11s D22s D12s D66s;
           let genPoiss = computeGeneralizedPoissonsRatio D12s D66s;
           let zetaStiff = computeTransverseShearParameter A66s A11s bStiff hStiff;
           let N1CritCrippling = computeStiffenerCripplingLoad st D11s D22s xiStiff rho0Stiff
                                   genPoiss zetaStiff;
           let N1 = - (stiffenerStress ! 0);
           let fails4 = N1 / N1CritCrippling;
           let fails = [fails0, fails1, fails2, fails3, fails4];
           let (fail, dKSdf) = ksAggregationSens fails NUM_FAILURES (ksWeight st);
           let sens2 = memset_zero (NUM_STRESSES C) sens1;
           let sens3 = fold (\<lambda>ii s. s[ii := dKSdf ! 0 * panelFailSens ! ii
                                              + dKSdf ! 1 * stiffenerFailSens ! ii])
                         [0..<NUM_STRESSES C] sens2;
           let N1LocalSens' = N1LocalSens * dKSdf ! 2;
           let N12LocalSens' = N12LocalSens * dKSdf ! 2;
           let sens4 = sens3[0 := sens3 ! 0 + (N1LocalSens' * - (Ap ! 0) + N12LocalSens' * Ap ! 2)];
           let sens5 = sens4[1 := sens4 ! 1 + (N1LocalSens' * - (Ap ! 1) + N12LocalSens' * Ap ! 4)];
           let sens6 = sens5[2 := sens5 ! 2 + (N1LocalSens' * - (Ap ! 2) + N12LocalSens' * Ap ! 5)];
           let N1GlobalSens' = N1GlobalSens * dKSdf ! 3;
           let N12GlobalSens' = N12GlobalSens * dKSdf ! 3;
           let sens7 = sens6[0 := sens6 ! 0 + (N1GlobalSens' * - (Ap ! 0) + N12GlobalSens' * Ap ! 2)];
           let sens8 = sens7[1 := sens7 ! 1 + (N1GlobalSens' * - (Ap ! 1) + N12GlobalSens' * Ap ! 4)];
           let sens9 = sens8[2 := sens8 ! 2 + (N1GlobalSens' * - (Ap ! 2) + N12GlobalSens' * Ap ! 5)];
           let N1stiffSens = dKSdf ! 4 / N1CritCrippling;
           let sens10 = sens9[0 := sens9 ! 0 + N1stiffSens * - (As ! 0)];
           let sens11 = sens10[1 := sens10 ! 1 + N1stiffSens * - (As ! 1)];
           let sens12 = sens11[2 := sens11 ! 2 + N1stiffSens * - (As ! 2)];
           Some (fail, sens12)
         })"

section \<open>Design-variable sensitivities and accessors\<close>

text \<open>
  The part of \<open>addFailureDVSens\<close> that back-propagates the crippling ratio
  \<open>fails[4]\<close> through the stiffener stress resultants: the failure values and their KS
  weights (start of the method), the stiffener state of the crippling section, and the
  call \<open>addStiffenerStressDVSens(scale, strain, dfdStiffStress, &dfdx[panelDVStartNum])\<close>.
  The other writes of the method go to other calls and are not part of this slice.
\<close>

definition addFailureDVSens_stiffenerStress ::
  "collaborators \<Rightarrow> GPBladeStiffenedShell \<Rightarrow> TacsScalar \<Rightarrow> TacsScalar list \<Rightarrow> TacsScalar list
     \<Rightarrow> TacsScalar list option" where
  "addFailureDVSens_stiffenerStress C st scale strain dfdx =
     do {
       (fail, fails) \<leftarrow> computeFailureValues C st strain;
       let dKSdf = snd (ksAggregationSens fails NUM_FAILURES (ksWeight st));
       let stiffenerStrain = transformStrain C st strain;
       let a = panelLength st;
       let stiffenerStiffness = computeStiffenerStiffness C st;
       let As = extractTangentStiffness_A C stiffenerStiffness;
       let Ds = extractTangentStiffness_D C stiffenerStiffness;
       let stiffenerStress = computeStiffenerStress C st stiffenerStrain;
       let D11s = Ds ! 0; let D12s = Ds ! 1; let D22s = Ds ! 3; let D66s = Ds ! 5;
       let A11s = As ! 0; let A66s = As ! 5;
       let bStiff = stiffenerHeight st;
       let hStiff = stiffenerThick st;
       let rho0Stiff = computeAffineAspectRatio D11s D22s a bStiff;
       let xiStiff = computeGeneralizedRigidity D11s D22s D12s D66s;
       let genPoiss = computeGeneralizedPoissonsRatio D12s D66s;
       let zetaStiff = computeTransverseShearParameter A66s A11s bStiff hStiff;
       let N1CritCrippling = computeStiffenerCripplingLoad st D11s D22s xiStiff rho0Stiff
                               genPoiss zetaStiff;
       let N1 = - (stiffenerStress ! 0);
       let fails4 = N1 / N1CritCrippling;
       let stiffN1sens = dKSdf ! 4 * fails4 / N1;
       let dfdStiffStress = (replicate (NUM_STRESSES C) 0)[0 := - stiffN1sens];
       Some (at_offset (panelDVStartNum st)
               (addStiffenerStressDVSens C st scale strain dfdStiffStress) dfdx)
     }"

text \<open>
  The neighbouring call of the same method for the stiffener material failure:
  \<open>addStiffenerFailureDVSens(stiffenerStrain, scale * dKSdf[1], &dfdx[stiffenerDVStartNum])\<close>.
\<close>

definition addFailureDVSens_stiffenerFailure ::
  "collaborators \<Rightarrow> GPBladeStiffenedShell \<Rightarrow> TacsScalar \<Rightarrow> TacsScalar list \<Rightarrow> TacsScalar list
     \<Rightarrow> TacsScalar list option" where
  "addFailureDVSens_stiffenerFailure C st scale strain dfdx =
     do {
       (fail, fails) \<leftarrow> computeFailureValues C st strain;
       let dKSdf = snd (ksAggregationSens fails NUM_FAILURES (ksWeight st));
       let stiffenerStrain = transformStrain C st strain;
       Some (at_offset (stiffenerDVStartNum st)
               (addStiffenerFailureDVSens C st stiffenerStrain (scale * dKSdf ! 1)) dfdx)
     }"

text \<open>
  Array accesses with a signed index: outside the array the behaviour of the program is
  undefined, which the model reports as \<open>None\<close>.
\<close>

definition array_read :: "'a list \<Rightarrow> int \<Rightarrow> 'a option" where
  "array_read xs i = (if 0 \<le> i \<and> i < int (length xs) then Some (xs ! nat i) else None)"

definition array_write :: "'a list \<Rightarrow> int \<Rightarrow> 'a \<Rightarrow> 'a list option" where
  "array_write xs i v = (if 0 \<le> i \<and> i < int (length xs) then Some (xs[nat i := v]) else None)"

text \<open>
  \<open>setDesignVars\<close> and \<open>getDesignVars\<close> first call the base-class method and then
  handle the panel width.  They return \<open>numDesignVars\<close> together with the new object
  state, respectively the array \<open>dvs\<close> after the writes.
\<close>

definition setDesignVars ::
  "collaborators \<Rightarrow> GPBladeStiffenedShell \<Rightarrow> int \<Rightarrow> int \<Rightarrow> TacsScalar list
     \<Rightarrow> (int \<times> GPBladeStiffenedShell) option" where
  "setDesignVars C st elemIndex dvLen dvs =
     (let st1 = base_setDesignVars C st elemIndex dvLen dvs
      in if dvLen \<ge> numDesignVars st1
         then (if panelWidthNum st1 \<ge> 0
               then (case array_read dvs (panelWidthLocalNum st1) of
                       None \<Rightarrow> None
                     | Some v \<Rightarrow> Some (numDesignVars st1, st1\<lparr> panelWidth := v \<rparr>))
               else Some (numDesignVars st1, st1))
         else Some (numDesignVars st1, st1))"

definition getDesignVars ::
  "collaborators \<Rightarrow> GPBladeStiffenedShell \<Rightarrow> int \<Rightarrow> int \<Rightarrow> TacsScalar list
     \<Rightarrow> (int \<times> TacsScalar list) option" where
  "getDesignVars C st elemIndex dvLen dvs =
     (let dvs1 = base_getDesignVars C st elemIndex dvLen dvs
      in if dvLen \<ge> numDesignVars st
         then (if panelWidthNum st \<ge> 0
               then (case array_write dvs1 (panelWidthLocalNum st) (panelWidth st) of
                       None \<Rightarrow> None
                     | Some dvs2 \<Rightarrow> Some (numDesignVars st, dvs2))
               else Some (numDesignVars st, dvs1))
         else Some (numDesignVars st, dvs1))"

section \<open>Concrete objects\<close>

text \<open>
  Objects at which the definitions are evaluated.  \<open>unit_axialGP\<close> is an axial model
  with one training point and coefficient 1; \<open>flat_axialGP\<close> has coefficient 0, so it
  predicts 0 and a surrogate load equals its dimensional prefactor;
  \<open>two_point_axialGP\<close> has the two training rows \<open>[0, 0, 0, 0]\<close> and
  \<open>[1, 0, 0, 0]\<close> with the coefficients 2 and 3.
\<close>

definition unit_axialGP :: GaussianProcessModel where
  "unit_axialGP = TACSAxialGaussianProcessModel smooth_gates 10 1 4 [1, 0, 0, 0] [1]"

definition flat_axialGP :: GaussianProcessModel where
  "flat_axialGP = TACSAxialGaussianProcessModel smooth_gates 10 1 4 [1, 1, 1, 1] [0]"

definition two_point_axialGP :: GaussianProcessModel where
  "two_point_axialGP =
     TACSAxialGaussianProcessModel smooth_gates 10 2 4 [0, 0, 0, 0, 1, 0, 0, 0] [2, 3]"

text \<open>
  Simple collaborators: unit membrane stiffness (stress resultants equal the strains), a
  linear material criterion \<open>- e[0] / 2\<close>, the interaction rule
  \<open>N1/N1crit + (N12/N12crit)^2\<close> with its four partial derivatives, a rectangular
  stiffener section, and stress and failure sensitivities that add into the first design
  variable of the block they are handed.
\<close>

definition example_collab :: collaborators where
  "example_collab =
     \<lparr> NUM_STRESSES = 9,
       NUM_CF_MODES = 3,
       computePanelFailure = (\<lambda>st e. - (e ! 0) / 2),
       evalPanelFailureStrainSens = (\<lambda>st e. (- (e ! 0) / 2, [- 1 / 2, 0, 0, 0, 0, 0, 0, 0, 0])),
       transformStrain = (\<lambda>st e. take 6 e),
       transformStrainSens = (\<lambda>st s. s @ [0, 0, 0]),
       computeStiffenerFailure = (\<lambda>st es. - (es ! 0) / 2),
       evalStiffenerFailureStrainSens = (\<lambda>st es. (- (es ! 0) / 2, [- 1 / 2, 0, 0, 0, 0, 0])),
       computePanelStiffness = (\<lambda>st. [1, 0, 0, 1, 0, 1, 1, 1, 0, 1, 0, 1 / 2]),
       computeStiffenerStiffness = (\<lambda>st. [1, 0, 0, 1, 0, 1, 1, 1, 0, 1, 0, 1 / 2]),
       extractTangentStiffness_A = take 6,
       extractTangentStiffness_D = (\<lambda>c. take 6 (drop 6 c)),
       computePanelStress = (\<lambda>st e. e),
       computeStiffenerStress = (\<lambda>st es. es),
       bucklingEnvelope = (\<lambda>N1 N1Crit N12 N12Crit. N1 / N1Crit + (N12 / N12Crit)\<^sup>2),
       bucklingEnvelopeSens =
         (\<lambda>N1 N1Crit N12 N12Crit.
            (N1 / N1Crit + (N12 / N12Crit)\<^sup>2,
             1 / N1Crit,
             - N1 / (N1Crit * N1Crit),
             2 * N12 / (N12Crit * N12Crit),
             - 2 * N12 * N12 / (N12Crit * N12Crit * N12Crit))),
       computeEffectiveModulii = (\<lambda>n Q f. (1, 1)),
       computeStiffenerArea = (\<lambda>st. stiffenerHeight st * stiffenerThick st),
       computeStiffenerIzz = (\<lambda>st. stiffenerThick st * stiffenerHeight st ^ 3 / 12),
       addStiffenerStressDVSens = (\<lambda>st scale strain psi dfdx. dfdx[0 := dfdx ! 0 + scale * psi ! 0]),
       addStiffenerFailureDVSens = (\<lambda>st es scale dfdx. dfdx[0 := dfdx ! 0 + scale]),
       base_setDesignVars = (\<lambda>st elemIndex dvLen dvs. st),
       base_getDesignVars = (\<lambda>st elemIndex dvLen dvs. dvs) \<rparr>"

text \<open>
  The object as the base-class constructor leaves it: five design variables (panel length
  and stiffener pitch, then the panel block with the panel thickness at index 2, then the
  stiffener block with height and thickness at indices 3 and 4).  The constructor of the
  class adds the panel width as design variable 5.
\<close>

definition example_base :: GPBladeStiffenedShell where
  "example_base =
     \<lparr> panelLength = pi, stiffenerPitch = pi / 2, panelThick = 1,
       stiffenerHeight = pi / 2, stiffenerThick = 1, panelWidth = 0,
       panelWidthNum = 0, panelWidthLocalNum = 0,
       panelWidthLowerBound = 0, panelWidthUpperBound = 0,
       numDesignVars = 5, numGeneralDV = 2,
       panelDVStartNum = 2, stiffenerDVStartNum = 3,
       numPanelPlies = 1, panelQMats = [1, 0, 0, 1, 0, 1], panelPlyFracs = [1],
       numStiffenerPlies = 1, stiffenerQMats = [1, 0, 0, 1, 0, 1], stiffenerPlyFracs = [1],
       ksWeight = 1,
       axialGP = None, shearGP = None, cripplingGP = None \<rparr>"

definition example_shell :: GPBladeStiffenedShell where
  "example_shell =
     TACSGPBladeStiffenedShellConstitutive example_base pi 5
       (Some flat_axialGP) (Some flat_axialGP) (Some flat_axialGP)"

text \<open>The same object with the two-point axial surrogate and no other surrogate.\<close>

definition surrogate_shell :: GPBladeStiffenedShell where
  "surrogate_shell =
     TACSGPBladeStiffenedShellConstitutive example_base pi 5 (Some two_point_axialGP) None None"

text \<open>A uniaxial compressive strain, and the KS weights of the failure ratios it gives.\<close>

definition example_strain :: "TacsScalar list" where
  "example_strain = [- 1, 0, 0, 0, 0, 0, 0, 0, 0]"

definition example_fails :: "TacsScalar list" where
  "example_fails = [1 / 2, 1 / 2, 2, 1 / 4, 1 / 4]"

definition example_dKSdf :: "TacsScalar list" where
  "example_dKSdf = snd (ksAggregationSens example_fails NUM_FAILURES 1)"

section \<open>Properties of the nondimensional parameter library\<close>

text \<open>
  Claim C8.  \<open>computeTransverseShearParameter(A66, A11, b, h)\<close> returns
  \<open>(A66/A11) * (b/h)^2\<close>, and for every input \<open>computeTransverseShearParameterSens\<close>
  returns that forward value \<open>zeta\<close> and adds into its four output slots
  \<open>zetasens\<close> times \<open>zeta/A66\<close>, \<open>-zeta/A11\<close>, \<open>2*zeta/b\<close> and \<open>-2*zeta/h\<close>.
\<close>

theorem computeTransverseShearParameterSens_adds:
  "computeTransverseShearParameter A66 A11 b h = (A66 / A11) * (b / h)\<^sup>2
   \<and> fst (computeTransverseShearParameterSens zetasens A66 A11 b h out)
       = computeTransverseShearParameter A66 A11 b h
   \<and> A66sens (snd (computeTransverseShearParameterSens zetasens A66 A11 b h out))
       = A66sens out + zetasens * (computeTransverseShearParameter A66 A11 b h / A66)
   \<and> A11sens (snd (computeTransverseShearParameterSens zetasens A66 A11 b h out))
       = A11sens out + zetasens * (- computeTransverseShearParameter A66 A11 b h / A11)
   \<and> bsens (snd (computeTransverseShearParameterSens zetasens A66 A11 b h out))
       = bsens out + zetasens * (2 * computeTransverseShearParameter A66 A11 b h / b)
   \<and> hsens (snd (computeTransverseShearParameterSens zetasens A66 A11 b h out))
       = hsens out + zetasens * (- 2 * computeTransverseShearParameter A66 A11 b h / h)"
  by (simp add: computeTransverseShearParameter_def computeTransverseShearParameterSens_def
      Let_def power2_eq_square)

section \<open>Properties of the trained regression model\<close>

subsection \<open>Loops over index ranges\<close>

lemma fold_add_upt:
  "fold (\<lambda>i acc. acc + f i) [0..<n] (a::real) = a + (\<Sum>i<n. f i)"
  by (induction n) (simp_all add: add.assoc)

lemma upt4: "[0..<4] = [0, 1, 2, 3]"
  by (simp add: upt_rec)

lemma rep4: "replicate 4 (0::real) = [0, 0, 0, 0]"
  by (simp add: numeral_eq_Suc)

lemma list4:
  assumes "length xs = 4"
  obtains a b c d where "xs = [a, b, c, d]"
proof -
  from assms obtain a xs1 where 1: "xs = a # xs1" "length xs1 = 3"
    by (cases xs) auto
  then obtain b xs2 where 2: "xs1 = b # xs2" "length xs2 = 2" by (cases xs1) auto
  then obtain c xs3 where 3: "xs2 = c # xs3" "length xs3 = 1" by (cases xs2) auto
  then obtain d where 4: "xs3 = [d]" by (cases xs3) auto
  from 1 2 3 4 that show thesis by blast
qed

lemma memset_zero_full: "length acc = n \<Longrightarrow> memset_zero n acc = replicate n 0"
  by (simp add: memset_zero_def)

subsection \<open>The mean prediction is the coefficient-weighted sum of kernel values\<close>

lemma predictMeanTestData_sum:
  "predictMeanTestData gp x = (\<Sum>i<n_train gp. alpha gp ! i * kernel gp x (loc_Xtrain gp i))"
  unfolding predictMeanTestData_def
  by (simp add: fold_add_upt mult.commute)

text \<open>The axial kernel reads the first four entries behind the row pointer only.\<close>

lemma axial_kernel_reads_row:
  "4 \<le> length Xtrn \<Longrightarrow> axial_kernel sf ks Xtest (take 4 Xtrn) = axial_kernel sf ks Xtest Xtrn"
  by (simp add: axial_kernel_def)

text \<open>
  For an axial model whose rows hold at least the four entries the kernel reads, the
  kernel value at the pointer to row \<open>i\<close> is its value at the \<open>n_param\<close> entries of
  that row.
\<close>

lemma predictMeanTestData_axial_rows:
  assumes gp: "gp = TACSAxialGaussianProcessModel sf ks ntrain nparam X a"
      and np: "4 \<le> nparam" and len: "nparam * ntrain \<le> length X"
  shows "predictMeanTestData gp x
           = (\<Sum>i<ntrain. alpha gp ! i
                             * axial_kernel sf ks x (take nparam (drop (nparam * i) X)))"
proof -
  have f: "n_train gp = ntrain" "n_param gp = nparam" "Xtrain gp = take (ntrain * nparam) X"
    "kernel gp = axial_kernel sf ks"
    by (simp_all add: gp TACSAxialGaussianProcessModel_def TACSGaussianProcessModel_def)
  have row: "axial_kernel sf ks x (loc_Xtrain gp i)
               = axial_kernel sf ks x (take nparam (drop (nparam * i) X))" if "i < ntrain" for i
  proof -
    have b: "nparam * i + nparam \<le> nparam * ntrain"
    proof -
      have "nparam * Suc i \<le> nparam * ntrain" using that by (intro mult_le_mono2) simp
      then show ?thesis by simp
    qed
    have l1: "4 \<le> length (loc_Xtrain gp i)"
      using b np len by (simp add: loc_Xtrain_def f mult.commute)
    have l2: "4 \<le> length (take nparam (drop (nparam * i) X))"
      using b np len by simp
    have "take 4 (loc_Xtrain gp i) = take 4 (take nparam (drop (nparam * i) X))"
      using b np by (simp add: loc_Xtrain_def f take_drop min_def mult.commute)
    with axial_kernel_reads_row[OF l1, of sf ks x] axial_kernel_reads_row[OF l2, of sf ks x]
    show ?thesis by simp
  qed
  show ?thesis
    unfolding predictMeanTestData_sum f
    by (rule sum.cong) (simp_all add: row)
qed

subsection \<open>The kernel sensitivity adds, the mean sensitivity resets\<close>

lemma axial_kernelSens_adds:
  "axial_kernelSens sf ks ksens x xt [a0, a1, a2, a3]
     = [a0 + ksens * axial_jacobian sf ks x xt ! 0,
        a1 + ksens * axial_jacobian sf ks x xt ! 1,
        a2 + ksens * axial_jacobian sf ks x xt ! 2,
        a3 + ksens * axial_jacobian sf ks x xt ! 3]"
  unfolding axial_kernelSens_def Let_def
  by (simp add: upt4)

lemma axial_kernelSens_twice:
  "axial_kernelSens sf ks ksens x xt (axial_kernelSens sf ks ksens x xt (replicate 4 0))
     = map ((*) 2) (axial_kernelSens sf ks ksens x xt (replicate 4 0))"
  by (simp add: rep4 axial_kernelSens_adds)

lemma sens_loop_axial:
  "fold (\<lambda>itrain (Ytest, Xs).
             (Ytest + f itrain,
              axial_kernelSens sf ks (c itrain) x (loc itrain) Xs))
       [0..<n] (0, [0, 0, 0, 0])
   = (\<Sum>i<n. f i,
      [(\<Sum>i<n. c i * axial_jacobian sf ks x (loc i) ! 0),
       (\<Sum>i<n. c i * axial_jacobian sf ks x (loc i) ! 1),
       (\<Sum>i<n. c i * axial_jacobian sf ks x (loc i) ! 2),
       (\<Sum>i<n. c i * axial_jacobian sf ks x (loc i) ! 3)])"
  by (induction n) (simp_all add: axial_kernelSens_adds)

lemma predictMeanTestDataSens_axial:
  assumes "gp = TACSAxialGaussianProcessModel sf ks ntrain 4 X a" and "length acc = 4"
  shows "predictMeanTestDataSens gp Ysens x acc
     = (predictMeanTestData gp x,
        [(\<Sum>i<n_train gp. Ysens * alpha gp ! i * axial_jacobian sf ks x (loc_Xtrain gp i) ! 0),
         (\<Sum>i<n_train gp. Ysens * alpha gp ! i * axial_jacobian sf ks x (loc_Xtrain gp i) ! 1),
         (\<Sum>i<n_train gp. Ysens * alpha gp ! i * axial_jacobian sf ks x (loc_Xtrain gp i) ! 2),
         (\<Sum>i<n_train gp. Ysens * alpha gp ! i * axial_jacobian sf ks x (loc_Xtrain gp i) ! 3)])"
proof -
  have sel: "n_param gp = 4" "kernel gp = axial_kernel sf ks"
    "kernelSens gp = axial_kernelSens sf ks"
    by (simp_all add: assms(1) TACSAxialGaussianProcessModel_def TACSGaussianProcessModel_def)
  have fwd: "predictMeanTestData gp x
      = (\<Sum>i<n_train gp. axial_kernel sf ks x (loc_Xtrain gp i) * alpha gp ! i)"
    unfolding predictMeanTestData_def sel
    by (simp add: fold_add_upt)
  show ?thesis
    unfolding predictMeanTestDataSens_def sel memset_zero_full[OF assms(2)] rep4
    by (simp only: sens_loop_axial fwd)
qed

text \<open>
  Claim C2, as amended.  \<open>kernelSens\<close> adds \<open>ksens * jacobian\<close> into \<open>Xtestsens\<close>, so
  two calls on a zero accumulator leave twice the single-call result.
  \<open>predictMeanTestDataSens\<close> first clears \<open>Xtestsens\<close> and then accumulates
  \<open>Ysens * alpha[i]\<close> times the kernel gradient over the training points: its result does
  not depend on what the accumulator held, it is \<open>Ysens * sum_i alpha[i] * grad kernel\<close>,
  and a second call leaves exactly the single-call result.
\<close>

theorem predictMeanTestDataSens_resets_kernelSens_adds:
  assumes "gp = TACSAxialGaussianProcessModel sf ks ntrain 4 X a" and "length acc = 4"
  shows "axial_kernelSens sf ks ksens x xt acc
           = map (\<lambda>j. acc ! j + ksens * axial_jacobian sf ks x xt ! j) [0..<4]
       \<and> axial_kernelSens sf ks ksens x xt (axial_kernelSens sf ks ksens x xt (replicate 4 0))
           = map ((*) 2) (axial_kernelSens sf ks ksens x xt (replicate 4 0))
       \<and> predictMeanTestDataSens gp Ysens x acc
           = predictMeanTestDataSens gp Ysens x (replicate 4 0)
       \<and> snd (predictMeanTestDataSens gp Ysens x acc)
           = map (\<lambda>j. \<Sum>i<n_train gp. Ysens * alpha gp ! i
                                        * axial_jacobian sf ks x (loc_Xtrain gp i) ! j) [0..<4]
       \<and> snd (predictMeanTestDataSens gp Ysens x (snd (predictMeanTestDataSens gp Ysens x acc)))
           = snd (predictMeanTestDataSens gp Ysens x acc)
       \<and> fst (predictMeanTestDataSens gp Ysens x acc) = predictMeanTestData gp x"
proof -
  from assms(2) obtain a0 a1 a2 a3 where acc: "acc = [a0, a1, a2, a3]" by (rule list4)
  have adds: "axial_kernelSens sf ks ksens x xt acc
           = map (\<lambda>j. acc ! j + ksens * axial_jacobian sf ks x xt ! j) [0..<4]"
    by (simp add: acc axial_kernelSens_adds upt4)
  have l0: "length (replicate 4 (0::real)) = 4" by simp
  have once: "predictMeanTestDataSens gp Ysens x acc
                = predictMeanTestDataSens gp Ysens x (replicate 4 0)"
    by (simp only: predictMeanTestDataSens_axial[OF assms] predictMeanTestDataSens_axial[OF assms(1) l0])
  have l1: "length (snd (predictMeanTestDataSens gp Ysens x acc)) = 4"
    by (simp add: predictMeanTestDataSens_axial[OF assms])
  have "predictMeanTestDataSens gp Ysens x (snd (predictMeanTestDataSens gp Ysens x acc))
          = predictMeanTestDataSens gp Ysens x acc"
    using predictMeanTestDataSens_axial[OF assms(1) l1, of Ysens x]
      predictMeanTestDataSens_axial[OF assms, of Ysens x]
    by (rule trans[OF _ sym])
  then have twice: "snd (predictMeanTestDataSens gp Ysens x (snd (predictMeanTestDataSens gp Ysens x acc)))
                 = snd (predictMeanTestDataSens gp Ysens x acc)"
    by (rule arg_cong)
  have closed: "snd (predictMeanTestDataSens gp Ysens x acc)
           = map (\<lambda>j. \<Sum>i<n_train gp. Ysens * alpha gp ! i
                                        * axial_jacobian sf ks x (loc_Xtrain gp i) ! j) [0..<4]"
    by (simp add: predictMeanTestDataSens_axial[OF assms] upt4)
  have fwd: "fst (predictMeanTestDataSens gp Ysens x acc) = predictMeanTestData gp x"
    by (simp add: predictMeanTestDataSens_axial[OF assms])
  from adds axial_kernelSens_twice once closed twice fwd show ?thesis by blast
qed

text \<open>
  The theorem at \<open>unit_axialGP\<close> and an accumulator that holds other values: the call
  gives what it gives on a zero accumulator.
\<close>

theorem predictMeanTestDataSens_resets_witness:
  "unit_axialGP = TACSAxialGaussianProcessModel smooth_gates 10 1 4 [1, 0, 0, 0] [1]
   \<and> length [5::real, 6, 7, 8] = 4
   \<and> predictMeanTestDataSens unit_axialGP 1 [0, 0, 0, 0] [5, 6, 7, 8]
       = predictMeanTestDataSens unit_axialGP 1 [0, 0, 0, 0] (replicate 4 0)
   \<and> snd (predictMeanTestDataSens unit_axialGP 1 [0, 0, 0, 0]
             (snd (predictMeanTestDataSens unit_axialGP 1 [0, 0, 0, 0] [5, 6, 7, 8])))
       = snd (predictMeanTestDataSens unit_axialGP 1 [0, 0, 0, 0] [5, 6, 7, 8])"
proof -
  have l: "length [5::real, 6, 7, 8] = 4" by simp
  from predictMeanTestDataSens_resets_kernelSens_adds
         [where ksens = 0 and xt = "[]" and Ysens = 1 and x = "[0, 0, 0, 0]",
          OF unit_axialGP_def l]
    unit_axialGP_def l
  show ?thesis by blast
qed

text \<open>
  The claim as stated fails at \<open>unit_axialGP\<close>: the first slot after one call on a zero
  accumulator is the positive number \<open>jacobian[0]\<close>, and a second call leaves that
  number, not twice it.
\<close>

lemma unit_jacobian0_pos:
  "0 < axial_jacobian smooth_gates 10 [0, 0, 0, 0] [1, 0, 0, 0] ! 0"
proof -
  define s where "s = softplus_relu 0 10"
  define f where "f = softplus_relu (1 - logcosh_abs 0 10) 10"
  have pos: "0 < 0.1 + S + (1 + 0.02 * F) * 1.1 * 1.1" if "0 \<le> S" "0 \<le> F" for S F :: real
    using that
    by (intro add_pos_nonneg add_nonneg_nonneg mult_pos_pos mult_nonneg_nonneg) simp_all
  have "axial_jacobian smooth_gates 10 [0, 0, 0, 0] [1, 0, 0, 0] ! 0
          = 0.1 + s * s + (1 + 0.02 * (f * f)) * 1.1 * 1.1"
    unfolding axial_jacobian_def Let_def smooth_gates_def s_def f_def
    by simp
  also have "0 < 0.1 + s * s + (1 + 0.02 * (f * f)) * 1.1 * 1.1"
    by (rule pos) simp_all
  finally show ?thesis .
qed

lemma unit_axialGP_sens:
  assumes "length acc = 4"
  shows "snd (predictMeanTestDataSens unit_axialGP 1 [0, 0, 0, 0] acc) ! 0
           = axial_jacobian smooth_gates 10 [0, 0, 0, 0] [1, 0, 0, 0] ! 0"
proof -
  have sel: "n_train unit_axialGP = 1" "alpha unit_axialGP = [1]"
    "loc_Xtrain unit_axialGP 0 = [1, 0, 0, 0]"
    by (simp_all add: unit_axialGP_def TACSAxialGaussianProcessModel_def
        TACSGaussianProcessModel_def loc_Xtrain_def)
  show ?thesis
    by (simp add: predictMeanTestDataSens_axial[OF unit_axialGP_def assms] sel)
qed

theorem predictMeanTestDataSens_twice_counterexample:
  "snd (predictMeanTestDataSens unit_axialGP 1 [0, 0, 0, 0]
          (snd (predictMeanTestDataSens unit_axialGP 1 [0, 0, 0, 0] [0, 0, 0, 0])))
     \<noteq> map ((*) 2) (snd (predictMeanTestDataSens unit_axialGP 1 [0, 0, 0, 0] [0, 0, 0, 0]))"
proof -
  let ?once = "snd (predictMeanTestDataSens unit_axialGP 1 [0, 0, 0, 0] [0, 0, 0, 0])"
  have l0: "length [0::real, 0, 0, 0] = 4" by simp
  have l1: "length ?once = 4"
    by (simp add: predictMeanTestDataSens_axial[OF unit_axialGP_def l0])
  have once: "?once ! 0 = axial_jacobian smooth_gates 10 [0, 0, 0, 0] [1, 0, 0, 0] ! 0"
    by (rule unit_axialGP_sens) simp
  have twice: "snd (predictMeanTestDataSens unit_axialGP 1 [0, 0, 0, 0] ?once) ! 0
                 = axial_jacobian smooth_gates 10 [0, 0, 0, 0] [1, 0, 0, 0] ! 0"
    by (rule unit_axialGP_sens) (rule l1)
  have "map ((*) 2) ?once ! 0 = 2 * axial_jacobian smooth_gates 10 [0, 0, 0, 0] [1, 0, 0, 0] ! 0"
    using l1 once by simp
  with twice unit_jacobian0_pos show ?thesis
    by (metis less_irrefl mult_2 add_cancel_left_left)
qed

section \<open>Properties of the critical load evaluator\<close>

lemma predictMeanTestData_flat [simp]: "predictMeanTestData flat_axialGP x = 0"
  by (simp add: predictMeanTestData_def flat_axialGP_def TACSAxialGaussianProcessModel_def
      TACSGaussianProcessModel_def)

lemma example_shell_fields [simp]:
  "panelLength example_shell = pi" "stiffenerPitch example_shell = pi / 2"
  "panelThick example_shell = 1" "stiffenerHeight example_shell = pi / 2"
  "stiffenerThick example_shell = 1" "panelWidth example_shell = pi"
  "panelWidthNum example_shell = 5" "panelWidthLocalNum example_shell = 5"
  "numDesignVars example_shell = 6"
  "panelDVStartNum example_shell = 2" "stiffenerDVStartNum example_shell = 3"
  "numPanelPlies example_shell = 1" "panelQMats example_shell = [1, 0, 0, 1, 0, 1]"
  "panelPlyFracs example_shell = [1]"
  "numStiffenerPlies example_shell = 1" "stiffenerQMats example_shell = [1, 0, 0, 1, 0, 1]"
  "stiffenerPlyFracs example_shell = [1]"
  "ksWeight example_shell = 1"
  "axialGP example_shell = Some flat_axialGP" "shearGP example_shell = Some flat_axialGP"
  "cripplingGP example_shell = Some flat_axialGP"
  by (simp_all add: example_shell_def example_base_def
      TACSGPBladeStiffenedShellConstitutive_def Let_def)

lemma example_collab_fields [simp]:
  "NUM_STRESSES example_collab = 9"
  "NUM_CF_MODES example_collab = 3"
  "computePanelFailure example_collab st e = - (e ! 0) / 2"
  "evalPanelFailureStrainSens example_collab st e = (- (e ! 0) / 2, [- 1 / 2, 0, 0, 0, 0, 0, 0, 0, 0])"
  "transformStrain example_collab st e = take 6 e"
  "transformStrainSens example_collab st s = s @ [0, 0, 0]"
  "computeStiffenerFailure example_collab st es = - (es ! 0) / 2"
  "evalStiffenerFailureStrainSens example_collab st es = (- (es ! 0) / 2, [- 1 / 2, 0, 0, 0, 0, 0])"
  "computePanelStiffness example_collab st = [1, 0, 0, 1, 0, 1, 1, 1, 0, 1, 0, 1 / 2]"
  "computeStiffenerStiffness example_collab st = [1, 0, 0, 1, 0, 1, 1, 1, 0, 1, 0, 1 / 2]"
  "extractTangentStiffness_A example_collab c = take 6 c"
  "extractTangentStiffness_D example_collab c = take 6 (drop 6 c)"
  "computePanelStress example_collab st e = e"
  "computeStiffenerStress example_collab st es = es"
  "bucklingEnvelope example_collab N1 N1Crit N12 N12Crit = N1 / N1Crit + (N12 / N12Crit)\<^sup>2"
  "bucklingEnvelopeSens example_collab N1 N1Crit N12 N12Crit =
            (N1 / N1Crit + (N12 / N12Crit)\<^sup>2,
             1 / N1Crit,
             - N1 / (N1Crit * N1Crit),
             2 * N12 / (N12Crit * N12Crit),
             - 2 * N12 * N12 / (N12Crit * N12Crit * N12Crit))"
  "computeEffectiveModulii example_collab n Q f = (1, 1)"
  "computeStiffenerArea example_collab st = stiffenerHeight st * stiffenerThick st"
  "computeStiffenerIzz example_collab st = stiffenerThick st * stiffenerHeight st ^ 3 / 12"
  "addStiffenerStressDVSens example_collab st scale strain psi dfdx = dfdx[0 := dfdx ! 0 + scale * psi ! 0]"
  "addStiffenerFailureDVSens example_collab st es scale dfdx = dfdx[0 := dfdx ! 0 + scale]"
  "base_setDesignVars example_collab st elemIndex dvLen dvs = st"
  "base_getDesignVars example_collab st elemIndex dvLen dvs = dvs"
  by (simp_all add: example_collab_def)

text \<open>
  The two-point surrogate: its fields, and the kernel at the test point
  \<open>[log 2, 0, 0, 0]\<close>, which is larger at the second training row than at the first.
\<close>

lemma two_point_axialGP_fields:
  "n_train two_point_axialGP = 2" "n_param two_point_axialGP = 4"
  "alpha two_point_axialGP = [2, 3]" "Xtrain two_point_axialGP = [0, 0, 0, 0, 1, 0, 0, 0]"
  "kernel two_point_axialGP = axial_kernel smooth_gates 10"
  by (simp_all add: two_point_axialGP_def TACSAxialGaussianProcessModel_def
      TACSGaussianProcessModel_def)

lemma surrogate_shell_axialGP: "axialGP surrogate_shell = Some two_point_axialGP"
  by (simp add: surrogate_shell_def TACSGPBladeStiffenedShellConstitutive_def Let_def)

lemma two_point_rows_differ:
  "axial_kernel smooth_gates 10 [ln 2, 0, 0, 0] [0, 0, 0, 0]
     < axial_kernel smooth_gates 10 [ln 2, 0, 0, 0] [1, 0, 0, 0]"
proof -
  define s where "s = softplus_relu 0 10"
  define f where "f = softplus_relu (1 - logcosh_abs 0 10) 10"
  have pos: "0 < ln 2 * (0.1 + S + (1 + 0.02 * F) * 1.1 * 1.1)" if "0 \<le> S" "0 \<le> F"
    for S F :: real
    using that
    by (intro add_pos_nonneg add_nonneg_nonneg mult_pos_pos mult_nonneg_nonneg) simp_all
  have "axial_kernel smooth_gates 10 [ln 2, 0, 0, 0] [1, 0, 0, 0]
          - axial_kernel smooth_gates 10 [ln 2, 0, 0, 0] [0, 0, 0, 0]
        = ln 2 * (0.1 + s * s + (1 + 0.02 * (f * f)) * 1.1 * 1.1)"
    unfolding axial_kernel_def Let_def smooth_gates_def s_def f_def
    by (simp add: algebra_simps)
  moreover have "0 < ln 2 * (0.1 + s * s + (1 + 0.02 * (f * f)) * 1.1 * 1.1)"
    by (rule pos) simp_all
  ultimately show ?thesis by linarith
qed

text \<open>
  Claim C6.  With an axial surrogate attached, \<open>computeCriticalGlobalAxialLoad\<close> returns
  the prefactor \<open>pi^2 * sqrt (D11*D22) / b^2 / (1 + delta)\<close> times \<open>exp m\<close>, where
  \<open>m\<close> is \<open>predictMeanTestData\<close> at \<open>[log xi, log rho_0, log (1 + gamma), log zeta]\<close>,
  and \<open>predictMeanTestData x\<close> is the sum over the training points \<open>i\<close> of
  \<open>alpha[i] * kernel(x, row i of Xtrain)\<close>.  Row \<open>i\<close> is handed to the kernel as the
  pointer \<open>&Xtrain[n_param * i]\<close>, the entries of \<open>Xtrain\<close> from index
  \<open>n_param * i\<close> on; for a model of the axial class, built from \<open>n_train\<close> rows of
  \<open>n_param >= 4\<close> entries, that is the kernel at the \<open>n_param\<close> entries
  \<open>X[n_param * i], ..., X[n_param * i + n_param - 1]\<close>.
\<close>

theorem globalAxial_surrogate:
  assumes "axialGP st = Some gp"
  shows "computeCriticalGlobalAxialLoad C st D11 D22 b delta rho_0 xi gamma zeta
           = pi\<^sup>2 * sqrt (D11 * D22) / b\<^sup>2 / (1 + delta)
             * exp (predictMeanTestData gp [ln xi, ln rho_0, ln (1 + gamma), ln zeta])
         \<and> (\<forall>x. predictMeanTestData gp x
                  = (\<Sum>i<n_train gp. alpha gp ! i
                                        * kernel gp x (drop (n_param gp * i) (Xtrain gp))))
         \<and> (\<forall>sf ks ntrain nparam X a x.
               gp = TACSAxialGaussianProcessModel sf ks ntrain nparam X a
               \<longrightarrow> 4 \<le> nparam \<longrightarrow> nparam * ntrain \<le> length X
               \<longrightarrow> predictMeanTestData gp x
                     = (\<Sum>i<ntrain. alpha gp ! i
                                       * axial_kernel sf ks x
                                           (take nparam (drop (nparam * i) X))))"
proof (intro conjI allI impI)
  show "computeCriticalGlobalAxialLoad C st D11 D22 b delta rho_0 xi gamma zeta
           = pi\<^sup>2 * sqrt (D11 * D22) / b\<^sup>2 / (1 + delta)
             * exp (predictMeanTestData gp [ln xi, ln rho_0, ln (1 + gamma), ln zeta])"
    using assms by (simp add: computeCriticalGlobalAxialLoad_def Let_def power2_eq_square)
next
  fix x
  show "predictMeanTestData gp x
          = (\<Sum>i<n_train gp. alpha gp ! i * kernel gp x (drop (n_param gp * i) (Xtrain gp)))"
    by (simp add: predictMeanTestData_sum loc_Xtrain_def)
next
  fix sf ks ntrain nparam X a x
  assume "gp = TACSAxialGaussianProcessModel sf ks ntrain nparam X a"
    and "4 \<le> nparam" and "nparam * ntrain \<le> length X"
  then show "predictMeanTestData gp x
               = (\<Sum>i<ntrain. alpha gp ! i
                                 * axial_kernel sf ks x (take nparam (drop (nparam * i) X)))"
    by (rule predictMeanTestData_axial_rows)
qed

text \<open>
  The theorem at the two-point surrogate, with \<open>D11 = D22 = 1\<close>, \<open>b = pi\<close>,
  \<open>delta = 1\<close>, \<open>rho_0 = 1\<close>, \<open>xi = 2\<close>, \<open>gamma = 0\<close>, \<open>zeta = 1\<close>: the prefactor
  is \<open>1/2\<close>, the test point is \<open>[log 2, 0, 0, 0]\<close>, and the prediction is twice the
  kernel at the first training row plus three times the kernel at the second, two
  different numbers.
\<close>

theorem globalAxial_surrogate_witness:
  "axialGP surrogate_shell = Some two_point_axialGP
   \<and> two_point_axialGP
       = TACSAxialGaussianProcessModel smooth_gates 10 2 4 [0, 0, 0, 0, 1, 0, 0, 0] [2, 3]
   \<and> computeCriticalGlobalAxialLoad example_collab surrogate_shell 1 1 pi 1 1 2 0 1
       = 1 / 2 * exp (2 * axial_kernel smooth_gates 10 [ln 2, 0, 0, 0] [0, 0, 0, 0]
                      + 3 * axial_kernel smooth_gates 10 [ln 2, 0, 0, 0] [1, 0, 0, 0])
   \<and> axial_kernel smooth_gates 10 [ln 2, 0, 0, 0] [0, 0, 0, 0]
       < axial_kernel smooth_gates 10 [ln 2, 0, 0, 0] [1, 0, 0, 0]"
proof -
  have h: "axialGP surrogate_shell = Some two_point_axialGP" by (rule surrogate_shell_axialGP)
  have g: "two_point_axialGP
             = TACSAxialGaussianProcessModel smooth_gates 10 2 4 [0, 0, 0, 0, 1, 0, 0, 0] [2, 3]"
    by (rule two_point_axialGP_def)
  have s2: "(\<Sum>i<2. f i) = f 0 + f (Suc 0)" for f :: "nat \<Rightarrow> real"
    by (simp add: numeral_2_eq_2)
  note T = globalAxial_surrogate[OF h, of example_collab 1 1 pi 1 1 2 0 1]
  have rows: "predictMeanTestData two_point_axialGP x
            = (\<Sum>i<2. alpha two_point_axialGP ! i
                         * axial_kernel smooth_gates 10 x
                             (take 4 (drop (4 * i) [0, 0, 0, 0, 1, 0, 0, 0])))" for x
    using T[THEN conjunct2, THEN conjunct2, rule_format, OF g, of x] by simp
  from T have "computeCriticalGlobalAxialLoad example_collab surrogate_shell 1 1 pi 1 1 2 0 1
       = 1 / 2 * exp (predictMeanTestData two_point_axialGP [ln 2, 0, 0, 0])"
    by (simp add: power2_eq_square)
  then have "computeCriticalGlobalAxialLoad example_collab surrogate_shell 1 1 pi 1 1 2 0 1
       = 1 / 2 * exp (2 * axial_kernel smooth_gates 10 [ln 2, 0, 0, 0] [0, 0, 0, 0]
                      + 3 * axial_kernel smooth_gates 10 [ln 2, 0, 0, 0] [1, 0, 0, 0])"
    by (simp add: rows s2 two_point_axialGP_fields)
  with h g two_point_rows_differ show ?thesis by blast
qed

text \<open>The mode loop fills \<open>neg_N11crits[m1 - 1]\<close> for \<open>m1 = 1 .. NUM_CF_MODES\<close>.\<close>

lemma mode_loop_prefix:
  "k \<le> n \<Longrightarrow>
     fold (\<lambda>m1 arr. arr[m1 - 1 := g m1]) [Suc 0..<Suc k] (replicate n (z::real))
       = map g [Suc 0..<Suc k] @ replicate (n - k) z"
proof (induction k)
  case 0
  then show ?case by simp
next
  case (Suc k)
  have IH: "fold (\<lambda>m1 arr. arr[m1 - 1 := g m1]) [Suc 0..<Suc k] (replicate n z)
          = map g [Suc 0..<Suc k] @ replicate (n - k) z"
    using Suc by simp
  have r: "replicate (n - k) z = z # replicate (n - Suc k) z"
    using Suc.prems by (cases "n - k") auto
  have u: "[Suc 0..<Suc (Suc k)] = [Suc 0..<Suc k] @ [Suc k]"
    by (rule upt_Suc_append) simp
  have len: "length (map g [Suc 0..<Suc k]) = k" by simp
  have "fold (\<lambda>m1 arr. arr[m1 - 1 := g m1]) [Suc 0..<Suc (Suc k)] (replicate n z)
          = (map g [Suc 0..<Suc k] @ z # replicate (n - Suc k) z)[k := g (Suc k)]"
    by (simp only: u fold_append o_apply fold_simps IH r diff_Suc_1)
  also have "\<dots> = map g [Suc 0..<Suc k] @ g (Suc k) # replicate (n - Suc k) z"
    using list_update_length[of "map g [Suc 0..<Suc k]" z "replicate (n - Suc k) z" "g (Suc k)"]
    by (simp only: len)
  also have "\<dots> = map g [Suc 0..<Suc (Suc k)] @ replicate (n - Suc k) z"
    by (simp only: u map_append list.map append_assoc append_Cons append_Nil)
  finally show ?case .
qed

lemma mode_loop_map:
  "fold (\<lambda>m1 arr. arr[m1 - 1 := g m1]) [1..<n + 1] (replicate n (z::real))
     = map g [1..<n + 1]"
  using mode_loop_prefix[of n n g z] by simp

text \<open>
  Claim C7.  With no axial surrogate attached, \<open>computeCriticalGlobalAxialLoad\<close> returns
  the negation of the KS aggregate, with sharpness \<open>ksWeight\<close>, of the
  \<open>NUM_CF_MODES\<close> negated mode loads; the load of mode \<open>m = 1 .. NUM_CF_MODES\<close> is
  \<open>pi^2 * sqrt (D11*D22) / b^2 / (1 + delta)\<close> times
  \<open>(1 + gamma) * (m/rho_0)^2 + (m/rho_0)^(-2) + 2 * xi\<close>.
\<close>

theorem globalAxial_closed_form:
  assumes "axialGP st = None"
  shows "computeCriticalGlobalAxialLoad C st D11 D22 b delta rho_0 xi gamma zeta
           = - ksAggregation
                 (map (\<lambda>m. - (pi\<^sup>2 * sqrt (D11 * D22) / b\<^sup>2 / (1 + delta)
                               * ((1 + gamma) * (real m / rho_0)\<^sup>2
                                  + (real m / rho_0) powi (- 2) + 2 * xi)))
                    [1..<NUM_CF_MODES C + 1])
                 (NUM_CF_MODES C) (ksWeight st)"
proof -
  have "computeCriticalGlobalAxialLoad C st D11 D22 b delta rho_0 xi gamma zeta
          = - 1 * ksAggregation
              (map (\<lambda>m1. - 1 * (pi * pi * sqrt (D11 * D22) / b / b / (1 + delta))
                            * ((1 + gamma) * (real m1 / rho_0) powi 2
                               + (real m1 / rho_0) powi (- 2) + 2 * xi))
                 [1..<NUM_CF_MODES C + 1])
              (NUM_CF_MODES C) (ksWeight st)"
    unfolding computeCriticalGlobalAxialLoad_def Let_def
    by (simp only: assms option.case mode_loop_map)
  also have "(\<lambda>m1. - 1 * (pi * pi * sqrt (D11 * D22) / b / b / (1 + delta))
                            * ((1 + gamma) * (real m1 / rho_0) powi 2
                               + (real m1 / rho_0) powi (- 2) + 2 * xi))
           = (\<lambda>m. - (pi\<^sup>2 * sqrt (D11 * D22) / b\<^sup>2 / (1 + delta)
                               * ((1 + gamma) * (real m / rho_0)\<^sup>2
                                  + (real m / rho_0) powi (- 2) + 2 * xi)))"
    by (rule ext) (simp add: power2_eq_square)
  finally show ?thesis by simp
qed

text \<open>
  The theorem at the example object without its axial surrogate, three modes, a unit
  plate of width \<open>pi\<close> with \<open>delta = 1\<close>, \<open>rho_0 = 1\<close>, \<open>xi = 2\<close>, \<open>gamma = 1\<close>: the mode
  loads are \<open>7/2\<close>, \<open>49/8\<close> and \<open>199/18\<close>.
\<close>

theorem globalAxial_closed_form_witness:
  "axialGP (example_shell\<lparr> axialGP := None \<rparr>) = None
   \<and> computeCriticalGlobalAxialLoad example_collab (example_shell\<lparr> axialGP := None \<rparr>)
         1 1 pi 1 1 2 1 1
       = - ksAggregation [- (7 / 2), - (49 / 8), - (199 / 18)] 3 1"
proof -
  have h: "axialGP (example_shell\<lparr> axialGP := None \<rparr>) = None" by simp
  have u: "[Suc 0..<4] = [Suc 0, 2, 3]"
    by (simp add: upt_rec)
  from globalAxial_closed_form[OF h, of example_collab 1 1 pi 1 1 2 1 1] h
  show ?thesis by (simp add: u power2_eq_square power_int_minus field_simps)
qed

section \<open>Properties of the coupled shear-mode solver\<close>

subsection \<open>The residual and its derivative in closed form\<close>

lemma powr_quarter_sq: "0 \<le> x \<Longrightarrow> x powr (1 / 4) * x powr (1 / 4) = sqrt (x::real)"
proof -
  assume x: "0 \<le> x"
  have "x powr (1 / 4) * x powr (1 / 4) = x powr (1 / 4 + 1 / 4)"
    by (simp only: powr_add)
  also have "\<dots> = x powr (1 / 2)" by simp
  finally show ?thesis using x by (simp add: powr_half_sqrt)
qed

lemma lam2Constraint_nan:
  "temp_of s xi gamma < 0 \<Longrightarrow> lam2Constraint s xi gamma = None"
  by (simp add: lam2Constraint_def pow_frac_def temp_of_def)

lemma lam2Constraint_eval:
  assumes "0 \<le> temp_of s xi gamma" and "0 \<le> rad_of s xi gamma"
  shows "lam2Constraint s xi gamma
           = Some (s + sqrt (temp_of s xi gamma) + xi / 3 - sqrt (rad_of s xi gamma))"
proof -
  let ?t = "temp_of s xi gamma"
  let ?l = "?t powr (25 / 10\<^sup>2)"
  have e: "(25::real) / 10\<^sup>2 = 1 / 4" by simp
  have q: "?l * ?l = sqrt ?t" using assms(1) by (simp only: e powr_quarter_sq)
  have qq: "sqrt ?t * sqrt ?t = ?t" using assms(1) by simp
  have pf: "pow_frac (1 + 2 * s * xi + s * s + gamma) (25 / 10\<^sup>2) = Some ?l"
    using assms(1) by (simp add: pow_frac_def temp_of_def)
  have sc: "sqrt_c (rad_of s xi gamma) = Some (sqrt (rad_of s xi gamma))"
    using assms(2) by (simp add: sqrt_c_def)
  show ?thesis
    unfolding lam2Constraint_def pf
    by (simp only: Option.bind.simps Let_def q qq rad_of_def[symmetric] sc)
qed

lemma deriv_algebra:
  fixes l r t q s xi :: real
  assumes "l * l = q" and "r \<noteq> 0" and "t \<noteq> 0"
  shows "1 + (2 * l - 5 / 10 / r * 4 / 3 * (2 * l * xi + 4 * l * q)) * (l * (25 / 10\<^sup>2) / t * (2 + 2 * s))
           = 1 + q * (2 - 2 / (3 * r) * (2 * xi + 4 * q)) * ((1 + s) / (2 * t))"
proof -
  have "(2 * l - 5 / 10 / r * 4 / 3 * (2 * l * xi + 4 * l * q)) * (l * (25 / 10\<^sup>2) / t * (2 + 2 * s))
          = (l * l) * (2 - 2 / (3 * r) * (2 * xi + 4 * q)) * ((1 + s) / (2 * t))"
    using assms(2,3) by (simp add: field_simps power2_eq_square)
  then show ?thesis by (simp only: assms(1))
qed

lemma lam2ConstraintDeriv_eval:
  assumes "0 < temp_of s xi gamma" and "0 < rad_of s xi gamma"
  shows "lam2ConstraintDeriv s xi gamma
           = Finite (1 + sqrt (temp_of s xi gamma)
                          * (2 - 2 / (3 * sqrt (rad_of s xi gamma))
                                 * (2 * xi + 4 * sqrt (temp_of s xi gamma)))
                          * ((1 + s) / (2 * temp_of s xi gamma)))"
proof -
  let ?t = "temp_of s xi gamma"
  let ?l = "?t powr (25 / 10\<^sup>2)"
  let ?r = "sqrt (rad_of s xi gamma)"
  have e: "(25::real) / 10\<^sup>2 = 1 / 4" by simp
  have t0: "0 \<le> ?t" using assms(1) by simp
  have q: "?l * ?l = sqrt ?t" using t0 by (simp only: e powr_quarter_sq)
  have qq: "sqrt ?t * sqrt ?t = ?t" using t0 by simp
  have pf: "pow_frac ?t (25 / 10\<^sup>2) = Some ?l"
    using assms(1) by (simp add: pow_frac_def)
  have r0: "?r \<noteq> 0" and r0': "(?r = 0) = False" using assms(2) by simp_all
  have tn: "?t \<noteq> 0" and tn': "(?t = 0) = False" using assms(1) by simp_all
  have sc: "sqrt_c (rad_of s xi gamma) = Some ?r" using assms(2) by (simp add: sqrt_c_def)
  show ?thesis
    unfolding lam2ConstraintDeriv_def temp_of_def[symmetric]
    by (simp only: Let_def pf option.case q qq rad_of_def[symmetric] sc tn' r0' if_False
        deriv_algebra[OF q r0 tn])
qed


subsection \<open>The slope of the residual\<close>

text \<open>
  \<open>lam2ConstraintDeriv\<close> is written as the derivative of the residual with respect to
  \<open>lam2sq\<close>.  Where both radicands are positive the residual is differentiable, and its
  derivative has the closed form of \<open>lam2ConstraintDeriv\<close> with \<open>xi + s\<close> in the place
  of \<open>1 + s\<close>: the derivative of \<open>temp = 1 + 2*lam2sq*xi + lam2sq^2 + gamma\<close> is
  \<open>2*xi + 2*lam2sq\<close>, and the code multiplies by \<open>2.0 + 2.0*lam2sq\<close>.
\<close>

lemma radicands_positive_nearby:
  assumes "0 < temp_of s xi gamma" and "0 < rad_of s xi gamma"
  shows "eventually (\<lambda>u. 0 < temp_of u xi gamma \<and> 0 < rad_of u xi gamma) (nhds s)"
proof -
  have ct: "continuous_on UNIV (\<lambda>u. temp_of u xi gamma)"
    unfolding temp_of_def by (intro continuous_intros)
  have cr: "continuous_on UNIV (\<lambda>u. rad_of u xi gamma)"
    unfolding rad_of_def temp_of_def by (intro continuous_intros)
  have "open {u. 0 < temp_of u xi gamma \<and> 0 < rad_of u xi gamma}"
    by (intro open_Collect_conj open_Collect_less continuous_on_const ct cr)
  moreover have "s \<in> {u. 0 < temp_of u xi gamma \<and> 0 < rad_of u xi gamma}"
    using assms by simp
  ultimately show ?thesis
    unfolding eventually_nhds by blast
qed

lemma slope_algebra:
  fixes a r xi s :: real
  assumes "a \<noteq> 0" and "r \<noteq> 0"
  shows "1 + (2 * xi + 2 * s) / (2 * a)
           - (4 / 3 * ((2 * xi + 2 * s) / (2 * a)) * xi + 4 / 3 * (2 * xi + 2 * s)) / (2 * r)
         = 1 + a * (2 - 2 / (3 * r) * (2 * xi + 4 * a)) * ((xi + s) / (2 * (a * a)))"
  using assms by (simp add: field_simps)

lemma residual_formula_derivative:
  assumes t: "0 < temp_of s xi gamma" and r: "0 < rad_of s xi gamma"
  shows "((\<lambda>u. u + sqrt (temp_of u xi gamma) + xi / 3 - sqrt (rad_of u xi gamma))
            has_real_derivative
              (1 + sqrt (temp_of s xi gamma)
                     * (2 - 2 / (3 * sqrt (rad_of s xi gamma))
                            * (2 * xi + 4 * sqrt (temp_of s xi gamma)))
                     * ((xi + s) / (2 * temp_of s xi gamma)))) (at s)"
proof -
  let ?t = "temp_of s xi gamma"
  let ?r = "rad_of s xi gamma"
  have dt: "((\<lambda>u. temp_of u xi gamma) has_real_derivative (2 * xi + 2 * s)) (at s)"
    unfolding temp_of_def by (auto intro!: derivative_eq_intros)
  have dst: "((\<lambda>u. sqrt (temp_of u xi gamma)) has_real_derivative
               ((2 * xi + 2 * s) / (2 * sqrt ?t))) (at s)"
    using t by (auto intro!: derivative_eq_intros dt simp: field_simps)
  have dr: "((\<lambda>u. rad_of u xi gamma) has_real_derivative
               (4 / 3 * ((2 * xi + 2 * s) / (2 * sqrt ?t)) * xi + 4 / 3 * (2 * xi + 2 * s))) (at s)"
    unfolding rad_of_def
    by (rule derivative_eq_intros dst dt refl | simp add: field_simps)+
  have dsr: "((\<lambda>u. sqrt (rad_of u xi gamma)) has_real_derivative
               ((4 / 3 * ((2 * xi + 2 * s) / (2 * sqrt ?t)) * xi + 4 / 3 * (2 * xi + 2 * s))
                  / (2 * sqrt ?r))) (at s)"
    using r by (auto intro!: derivative_eq_intros dr simp: field_simps)
  have A: "((\<lambda>u. u + sqrt (temp_of u xi gamma) + xi / 3 - sqrt (rad_of u xi gamma))
            has_real_derivative
              (1 + (2 * xi + 2 * s) / (2 * sqrt ?t)
                 - (4 / 3 * ((2 * xi + 2 * s) / (2 * sqrt ?t)) * xi + 4 / 3 * (2 * xi + 2 * s))
                  / (2 * sqrt ?r))) (at s)"
    using DERIV_diff[OF DERIV_add[OF DERIV_add[OF DERIV_ident dst] DERIV_const[of "xi / 3"]] dsr]
    by simp
  have B: "1 + (2 * xi + 2 * s) / (2 * sqrt ?t)
                 - (4 / 3 * ((2 * xi + 2 * s) / (2 * sqrt ?t)) * xi + 4 / 3 * (2 * xi + 2 * s))
                  / (2 * sqrt ?r)
        = 1 + sqrt ?t * (2 - 2 / (3 * sqrt ?r) * (2 * xi + 4 * sqrt ?t)) * ((xi + s) / (2 * ?t))"
  proof -
    have q: "?t = sqrt ?t * sqrt ?t" using t by simp
    have s0: "sqrt ?t \<noteq> 0" "sqrt ?r \<noteq> 0" using t r by simp_all
    show ?thesis
      by (subst (3) q) (rule slope_algebra[OF s0])
  qed
  from A show ?thesis unfolding B .
qed

lemma lam2Constraint_has_derivative:
  assumes t: "0 < temp_of s xi gamma" and r: "0 < rad_of s xi gamma"
  shows "((\<lambda>u. the (lam2Constraint u xi gamma)) has_real_derivative
              (1 + sqrt (temp_of s xi gamma)
                     * (2 - 2 / (3 * sqrt (rad_of s xi gamma))
                            * (2 * xi + 4 * sqrt (temp_of s xi gamma)))
                     * ((xi + s) / (2 * temp_of s xi gamma)))) (at s)"
proof -
  have ev: "eventually (\<lambda>u. u + sqrt (temp_of u xi gamma) + xi / 3 - sqrt (rad_of u xi gamma)
                            = the (lam2Constraint u xi gamma)) (nhds s)"
    using radicands_positive_nearby[OF t r]
    by (rule eventually_mono) (simp add: lam2Constraint_eval)
  show ?thesis
    using residual_formula_derivative[OF t r] DERIV_cong_ev[OF refl ev refl] by blast
qed

subsection \<open>The loop and the values it passes through\<close>

lemma path_returns:
  "newton_path xi gamma s s' \<Longrightarrow> newton_body s' xi gamma = Exit r
     \<Longrightarrow> newton_lam2bar_sq s xi gamma = Some r"
proof (induction rule: newton_path.induct)
  case (here s)
  then show ?case by (subst newton_lam2bar_sq.simps) simp
next
  case (step s s1 s')
  then show ?case by (subst newton_lam2bar_sq.simps) simp
qed

subsection \<open>Square roots of the radicands that occur below\<close>

lemma sqrt_vals:
  "sqrt (121 / 9) = 11 / 3" "sqrt 64 = 8"
  by (rule real_sqrt_unique; simp add: power2_eq_square)+

subsection \<open>The loop at \<open>xi = 106/13\<close>, \<open>gamma = 0\<close>\<close>

text \<open>
  The residual at 0 is \<open>2/39\<close>.  Its slope there is \<open>- 997/169\<close>, and a Newton update
  with it moves \<open>lam2bar_sq\<close> to the positive value \<open>26/2991\<close>.  \<open>lam2ConstraintDeriv\<close>
  returns \<open>2/13\<close>, and the update of the loop gives \<open>- 1/3\<close>, where the argument of the
  fourth root is \<open>- 506/117\<close>.
\<close>

lemma temp_106_13: "temp_of 0 (106 / 13) 0 = 1"
  by (simp add: temp_of_def)
lemma rad_106_13: "rad_of 0 (106 / 13) 0 = 121 / 9"
  by (simp add: rad_of_def temp_106_13)
lemma residual0_106_13: "lam2Constraint 0 (106 / 13) 0 = Some (2 / 39)"
  by (subst lam2Constraint_eval) (simp_all add: temp_106_13 rad_106_13 sqrt_vals)
lemma deriv0_106_13: "lam2ConstraintDeriv 0 (106 / 13) 0 = Finite (2 / 13)"
  by (subst lam2ConstraintDeriv_eval) (simp_all add: temp_106_13 rad_106_13 sqrt_vals)
lemma body0_106_13: "newton_body 0 (106 / 13) 0 = Update (- (1 / 3))"
  by (simp add: newton_body_def residual0_106_13 deriv0_106_13)
lemma residual1_106_13: "lam2Constraint (- (1 / 3)) (106 / 13) 0 = None"
  by (rule lam2Constraint_nan) (simp add: temp_of_def)
lemma body1_106_13: "newton_body (- (1 / 3)) (106 / 13) 0 = Exit (Some (- (1 / 3)))"
  by (simp add: newton_body_def residual1_106_13)
lemma loop_106_13: "newton_lam2bar_sq 0 (106 / 13) 0 = Some (Some (- (1 / 3)))"
  by (rule path_returns[OF newton_path.step[OF body0_106_13 newton_path.here] body1_106_13])

lemma slope_106_13:
  "((\<lambda>u. the (lam2Constraint u (106 / 13) 0)) has_real_derivative - (997 / 169)) (at 0)"
proof -
  have t: "0 < temp_of 0 (106 / 13) 0" by (simp add: temp_106_13)
  have r: "0 < rad_of 0 (106 / 13) 0" by (simp add: rad_106_13)
  from lam2Constraint_has_derivative[OF t r] show ?thesis
    by (simp add: temp_106_13 rad_106_13 sqrt_vals)
qed

text \<open>
  Claim C4 does not hold of the code.  It says that whenever \<open>nondimShearParams\<close>
  returns, the iteration started at \<open>lam2sq = 0\<close> has stopped at a \<open>lam2sq\<close> whose
  residual is at most \<open>1e-10\<close> in magnitude, and the returned values are
  \<open>lam1bar = (1 + 2*lam2sq*xi + lam2sq^2 + gamma)^0.25\<close> and \<open>lam2bar = sqrt(lam2sq)\<close>.
  At \<open>xi = 106/13\<close>, \<open>gamma = 0\<close> the function returns after one update, at
  \<open>lam2bar_sq = - 1/3\<close>: the residual there is not a number, so it is not within the
  tolerance, and both returned values are not numbers.  The update that leads there
  divides the residual \<open>2/39\<close> by the value \<open>2/13\<close> of \<open>lam2ConstraintDeriv\<close>, which
  is not the slope of the residual.
\<close>

theorem nondimShearParams_returns_off_tolerance:
  "lam2Constraint 0 (106 / 13) 0 = Some (2 / 39)
   \<and> lam2ConstraintDeriv 0 (106 / 13) 0 = Finite (2 / 13)
   \<and> newton_body 0 (106 / 13) 0 = Update (- (1 / 3))
   \<and> lam2Constraint (- (1 / 3)) (106 / 13) 0 = None
   \<and> newton_lam2bar_sq 0 (106 / 13) 0 = Some (Some (- (1 / 3)))
   \<and> nondimShearParams (106 / 13) 0 = Some (None, None)"
  by (simp add: nondimShearParams_def loop_106_13 residual0_106_13 deriv0_106_13 body0_106_13
      residual1_106_13 lam1bar_of_def lam2bar_of_def pow_frac_def)

subsection \<open>The loop at \<open>xi = 21\<close>, \<open>gamma = 3\<close>\<close>

text \<open>
  The residual at 0 is 1.  Its slope there is \<open>- 83/8\<close>, and a Newton update with it
  moves \<open>lam2bar_sq\<close> to the positive value \<open>8/83\<close>.  \<open>lam2ConstraintDeriv\<close> returns
  \<open>11/24\<close>, and the update of the loop gives \<open>- 24/11\<close>, where the argument of the
  fourth root is \<open>- 10028/121\<close>.
\<close>

lemma temp_21_3: "temp_of 0 21 3 = 4"
  by (simp add: temp_of_def)
lemma rad_21_3: "rad_of 0 21 3 = 64"
  by (simp add: rad_of_def temp_21_3)
lemma residual0_21_3: "lam2Constraint 0 21 3 = Some 1"
  by (subst lam2Constraint_eval) (simp_all add: temp_21_3 rad_21_3 sqrt_vals)
lemma deriv0_21_3: "lam2ConstraintDeriv 0 21 3 = Finite (11 / 24)"
  by (subst lam2ConstraintDeriv_eval) (simp_all add: temp_21_3 rad_21_3 sqrt_vals)
lemma body0_21_3: "newton_body 0 21 3 = Update (- (24 / 11))"
  by (simp add: newton_body_def residual0_21_3 deriv0_21_3)
lemma residual1_21_3: "lam2Constraint (- (24 / 11)) 21 3 = None"
  by (rule lam2Constraint_nan) (simp add: temp_of_def)
lemma body1_21_3: "newton_body (- (24 / 11)) 21 3 = Exit (Some (- (24 / 11)))"
  by (simp add: newton_body_def residual1_21_3)
lemma loop_21_3: "newton_lam2bar_sq 0 21 3 = Some (Some (- (24 / 11)))"
  by (rule path_returns[OF newton_path.step[OF body0_21_3 newton_path.here] body1_21_3])

lemma slope_21_3: "((\<lambda>u. the (lam2Constraint u 21 3)) has_real_derivative - (83 / 8)) (at 0)"
proof -
  have t: "0 < temp_of 0 21 3" by (simp add: temp_21_3)
  have r: "0 < rad_of 0 21 3" by (simp add: rad_21_3)
  from lam2Constraint_has_derivative[OF t r] show ?thesis
    by (simp add: temp_21_3 rad_21_3 sqrt_vals)
qed

text \<open>
  Claim C5 does not hold of the code.  It says that for every \<open>xi\<close> in \<open>[0.01, 100]\<close>
  and \<open>gamma\<close> in \<open>[0, 5]\<close> the iteration, started at \<open>lam2sq = 0\<close> and updated by
  \<open>lam2sq -= lam2Constraint / lam2ConstraintDeriv\<close>, reaches a residual below \<open>1e-10\<close>
  in magnitude after a bounded number of updates.  At \<open>xi = 21\<close>, \<open>gamma = 3\<close>, inside
  that range, the iteration has the two values 0 and \<open>- 24/11\<close>: the residual at the
  first is 1, at the second it is not a number, and the loop stops there without having
  reached a residual within the tolerance.  The update divides the residual 1 by the
  value \<open>11/24\<close> of \<open>lam2ConstraintDeriv\<close>, which is not the slope of the residual.
\<close>

theorem newton_misses_tolerance_in_range:
  "(1 / 100 \<le> (21::real) \<and> (21::real) \<le> 100 \<and> (0::real) \<le> 3 \<and> (3::real) \<le> 5)
   \<and> lam2Constraint 0 21 3 = Some 1
   \<and> lam2ConstraintDeriv 0 21 3 = Finite (11 / 24)
   \<and> newton_body 0 21 3 = Update (- (24 / 11))
   \<and> lam2Constraint (- (24 / 11)) 21 3 = None
   \<and> newton_lam2bar_sq 0 21 3 = Some (Some (- (24 / 11)))
   \<and> nondimShearParams 21 3 = Some (None, None)"
  by (simp add: nondimShearParams_def loop_21_3 residual0_21_3 deriv0_21_3 residual1_21_3
      body0_21_3 lam1bar_of_def lam2bar_of_def pow_frac_def)

section \<open>Properties of the failure evaluator\<close>

subsection \<open>The example object\<close>

lemma upt9: "[0..<9] = [0, 1, 2, 3, 4, 5, 6, 7, 8]"
  by (simp add: upt_rec)

lemma rep9: "replicate 9 (0::real) = [0, 0, 0, 0, 0, 0, 0, 0, 0]"
  by (simp add: numeral_eq_Suc)

lemma rep6: "replicate 6 (0::real) = [0, 0, 0, 0, 0, 0]"
  by (simp add: numeral_eq_Suc)

lemma memset9: "memset_zero 9 [a0, a1, a2, a3, a4, a5, a6, a7, a8] = [0, 0, 0, 0, 0, 0, 0, 0, 0]"
  by (simp add: memset_zero_def rep9)

lemma example_strain_entries [simp]:
  "take 6 example_strain = [- 1, 0, 0, 0, 0, 0]" "example_strain ! 0 = - 1"
  "example_strain ! 2 = 0"
  by (simp_all add: example_strain_def)

text \<open>
  With the zero-coefficient surrogates the critical loads of the example are the
  dimensional prefactors: \<open>1/2\<close> and \<open>1\<close> for global axial and shear buckling, \<open>4\<close>
  and \<open>4\<close> for local buckling, \<open>4\<close> for crippling.
\<close>

lemma example_globalAxial:
  "computeCriticalGlobalAxialLoad example_collab example_shell 1 1 pi 1 rho xi gamma zeta = 1 / 2"
  by (simp add: computeCriticalGlobalAxialLoad_def)

lemma example_localAxial:
  "computeCriticalLocalAxialLoad example_collab example_shell 1 1 rho xi zeta = 4"
  by (simp add: computeCriticalLocalAxialLoad_def)

lemma example_globalShear:
  "computeCriticalGlobalShearLoad example_shell 1 1 pi xi rho gamma zeta = Some 1"
  by (simp add: computeCriticalGlobalShearLoad_def)

lemma example_localShear:
  "computeCriticalLocalShearLoad example_shell 1 1 xi rho zeta = Some 4"
  by (simp add: computeCriticalLocalShearLoad_def)

lemma example_crippling:
  "computeStiffenerCripplingLoad example_shell 1 1 xi rho genPoiss zeta = 4"
  by (simp add: computeStiffenerCripplingLoad_def)

lemma example_delta: "computeStiffenerAreaRatio example_collab example_shell = 1"
  by (simp add: computeStiffenerAreaRatio_def)

lemma example_computeFailureValues:
  "computeFailureValues example_collab example_shell example_strain
     = Some (ksAggregation example_fails NUM_FAILURES 1, example_fails)"
  unfolding computeFailureValues_def
  by (simp add: Let_def example_fails_def example_delta example_globalAxial
      example_localAxial example_globalShear example_localShear example_crippling
      cong: let_weak_cong)

lemma example_ksSens:
  "ksAggregationSens example_fails NUM_FAILURES 1
     = (ksAggregation example_fails NUM_FAILURES 1, example_dKSdf)"
  by (simp add: example_dKSdf_def ksAggregationSens_def ksAggregation_def Let_def)

lemma example_evalFailureStrainSens:
  "evalFailureStrainSens example_collab example_shell example_strain (replicate 9 0)
     = Some (ksAggregation example_fails NUM_FAILURES 1,
             [example_dKSdf ! 0 * (- 1 / 2) + example_dKSdf ! 1 * (- 1 / 2)
                + (1 / 4 * example_dKSdf ! 2) * (- 1)
                + (2 * example_dKSdf ! 3) * (- 1)
                + example_dKSdf ! 4 / 4 * (- 1),
              0, 0, 0, 0, 0, 0, 0, 0])"
  unfolding evalFailureStrainSens_def
  by (simp add: Let_def example_delta example_globalAxial
      example_localAxial example_globalShear example_localShear example_crippling rep9 memset9 upt9
      example_fails_def[symmetric] example_ksSens cong: let_weak_cong)

subsection \<open>The KS weights of the example\<close>

lemma ks_max_example: "ks_max example_fails = 2"
  by (simp add: example_fails_def)

lemma ks_sum_example_pos: "0 < ks_sum example_fails 1"
  by (simp add: ks_sum_def example_fails_def add_pos_pos)

lemma example_dKSdf_eq:
  "example_dKSdf = map (\<lambda>v. exp (v - 2) / ks_sum example_fails 1) example_fails"
proof -
  have t: "take NUM_FAILURES example_fails = example_fails"
    by (simp add: NUM_FAILURES_def example_fails_def)
  show ?thesis
    by (simp add: example_dKSdf_def ksAggregationSens_def Let_def t ks_max_example)
qed

lemma example_dKSdf_entries:
  "example_dKSdf ! 1 = exp (- (3 / 2)) / ks_sum example_fails 1"
  "example_dKSdf ! 2 = 1 / ks_sum example_fails 1"
  "example_dKSdf ! 3 = exp (- (7 / 4)) / ks_sum example_fails 1"
  "example_dKSdf ! 4 = exp (- (7 / 4)) / ks_sum example_fails 1"
  unfolding example_dKSdf_eq
  by (simp_all add: example_fails_def)

lemma example_weights_ordered: "example_dKSdf ! 3 < example_dKSdf ! 2"
proof -
  have e: "exp (- (7 / 4)) < (1::real)" by simp
  show ?thesis
    unfolding example_dKSdf_entries
    using e ks_sum_example_pos by (simp add: divide_strict_right_mono)
qed

lemma example_dKSdf4_pos: "0 < example_dKSdf ! 4"
  unfolding example_dKSdf_entries using ks_sum_example_pos by simp

lemma example_dKSdf1_pos: "0 < example_dKSdf ! 1"
  unfolding example_dKSdf_entries using ks_sum_example_pos by simp

subsection \<open>The aggregate of the strain-sensitivity routine\<close>

lemma ksAggregationSens_fst: "fst (ksAggregationSens f n w) = ksAggregation f n w"
  by (simp add: ksAggregationSens_def ksAggregation_def Let_def)

text \<open>
  Claim C9.  For every strain \<open>e\<close> and every object state, the aggregate returned by
  \<open>evalFailureStrainSens\<close> is the one returned by \<open>computeFailureValues\<close>: both form the
  same five failure ratios and aggregate them with the same \<open>ksWeight\<close>.  The
  collaborators' sensitivity variants are taken to return the value of their forward
  variants, as their contracts say; where a closed-form shear load has no finite value,
  neither routine yields one.
\<close>

theorem evalFailureStrainSens_same_aggregate:
  assumes panel: "\<forall>st e. fst (evalPanelFailureStrainSens C st e) = computePanelFailure C st e"
      and stiff: "\<forall>st es. fst (evalStiffenerFailureStrainSens C st es)
                              = computeStiffenerFailure C st es"
      and env: "\<forall>N1 N1Crit N12 N12Crit.
                  fst (bucklingEnvelopeSens C N1 N1Crit N12 N12Crit)
                    = bucklingEnvelope C N1 N1Crit N12 N12Crit"
  shows "map_option fst (evalFailureStrainSens C st e sens)
           = map_option fst (computeFailureValues C st e)"
proof -
  have p: "\<And>st e a b. evalPanelFailureStrainSens C st e = (a, b) \<Longrightarrow> a = computePanelFailure C st e"
    using panel by (metis fst_conv)
  have s: "\<And>st e a b. evalStiffenerFailureStrainSens C st e = (a, b)
             \<Longrightarrow> a = computeStiffenerFailure C st e"
    using stiff by (metis fst_conv)
  have b: "\<And>N1 N1Crit N12 N12Crit f r. bucklingEnvelopeSens C N1 N1Crit N12 N12Crit = (f, r)
             \<Longrightarrow> f = bucklingEnvelope C N1 N1Crit N12 N12Crit"
    using env by (metis fst_conv)
  have k: "\<And>f n w a d. ksAggregationSens f n w = (a, d) \<Longrightarrow> a = ksAggregation f n w"
    using ksAggregationSens_fst by (metis fst_conv)
  show ?thesis
    unfolding evalFailureStrainSens_def computeFailureValues_def Let_def
    by (auto split: prod.splits Option.bind_splits dest!: p s b k)
qed

text \<open>
  The theorem at the example object and the compressive strain: both routines return the
  KS aggregate of the ratios \<open>1/2, 1/2, 2, 1/4, 1/4\<close>.
\<close>

theorem evalFailureStrainSens_same_aggregate_witness:
  "(\<forall>st e. fst (evalPanelFailureStrainSens example_collab st e)
              = computePanelFailure example_collab st e)
   \<and> (\<forall>st es. fst (evalStiffenerFailureStrainSens example_collab st es)
              = computeStiffenerFailure example_collab st es)
   \<and> (\<forall>N1 N1Crit N12 N12Crit.
          fst (bucklingEnvelopeSens example_collab N1 N1Crit N12 N12Crit)
            = bucklingEnvelope example_collab N1 N1Crit N12 N12Crit)
   \<and> map_option fst (evalFailureStrainSens example_collab example_shell example_strain
                        (replicate 9 0))
       = map_option fst (computeFailureValues example_collab example_shell example_strain)
   \<and> map_option fst (computeFailureValues example_collab example_shell example_strain)
       = Some (ksAggregation example_fails NUM_FAILURES 1)"
proof -
  have h1: "\<forall>st e. fst (evalPanelFailureStrainSens example_collab st e)
              = computePanelFailure example_collab st e"
    by simp
  have h2: "\<forall>st es. fst (evalStiffenerFailureStrainSens example_collab st es)
              = computeStiffenerFailure example_collab st es"
    by simp
  have h3: "\<forall>N1 N1Crit N12 N12Crit.
          fst (bucklingEnvelopeSens example_collab N1 N1Crit N12 N12Crit)
            = bucklingEnvelope example_collab N1 N1Crit N12 N12Crit"
    by simp
  have v: "map_option fst (computeFailureValues example_collab example_shell example_strain)
       = Some (ksAggregation example_fails NUM_FAILURES 1)"
    by (simp add: example_computeFailureValues)
  from evalFailureStrainSens_same_aggregate[OF h1 h2 h3, of example_shell example_strain
      "replicate 9 0"] h1 h2 h3 v
  show ?thesis by blast
qed

subsection \<open>The buckling weights in the strain sensitivity\<close>

text \<open>
  Claim C1 does not hold of the code.  At the example object and the compressive strain
  the failure ratios are \<open>fails = [1/2, 1/2, 2, 1/4, 1/4]\<close>, with \<open>fails[2] = 2\<close> the
  global and \<open>fails[3] = 1/4\<close> the local buckling ratio; the load sensitivities of the
  interaction rule are \<open>N1GlobalSens = 2\<close>, \<open>N1LocalSens = 1/4\<close> and
  \<open>N12GlobalSens = N12LocalSens = 0\<close>, and \<open>Ap[0] = 1\<close>.  The returned \<open>sens[0]\<close> holds
  the local sensitivity \<open>1/4\<close> scaled by \<open>dKSdf[2]\<close>, the weight of the global ratio,
  and the global sensitivity \<open>2\<close> scaled by \<open>dKSdf[3]\<close>, the weight of the local ratio.
  The claim asks for \<open>2 * dKSdf[2]\<close> and \<open>1/4 * dKSdf[3]\<close>, which is a different number.
\<close>

theorem evalFailureStrainSens_swaps_buckling_weights:
  "evalFailureStrainSens example_collab example_shell example_strain (replicate 9 0)
     = Some (ksAggregation example_fails NUM_FAILURES 1,
             [example_dKSdf ! 0 * (- 1 / 2) + example_dKSdf ! 1 * (- 1 / 2)
                + (1 / 4 * example_dKSdf ! 2) * (- 1)
                + (2 * example_dKSdf ! 3) * (- 1)
                + example_dKSdf ! 4 / 4 * (- 1),
              0, 0, 0, 0, 0, 0, 0, 0])
   \<and> computeFailureValues example_collab example_shell example_strain
       = Some (ksAggregation example_fails NUM_FAILURES 1, [1 / 2, 1 / 2, 2, 1 / 4, 1 / 4])
   \<and> example_dKSdf = snd (ksAggregationSens [1 / 2, 1 / 2, 2, 1 / 4, 1 / 4] 5 1)
   \<and> (1 / 4 * example_dKSdf ! 2) * (- 1) + (2 * example_dKSdf ! 3) * (- 1)
       \<noteq> (2 * example_dKSdf ! 2) * (- 1) + (1 / 4 * example_dKSdf ! 3) * (- 1)"
proof -
  have d: "example_dKSdf = snd (ksAggregationSens [1 / 2, 1 / 2, 2, 1 / 4, 1 / 4] 5 1)"
    by (simp add: example_dKSdf_def example_fails_def NUM_FAILURES_def)
  have f: "computeFailureValues example_collab example_shell example_strain
       = Some (ksAggregation example_fails NUM_FAILURES 1, [1 / 2, 1 / 2, 2, 1 / 4, 1 / 4])"
    by (simp add: example_computeFailureValues) (simp add: example_fails_def)
  have n: "(1 / 4 * example_dKSdf ! 2) * (- 1) + (2 * example_dKSdf ! 3) * (- 1)
       \<noteq> (2 * example_dKSdf ! 2) * (- 1) + (1 / 4 * example_dKSdf ! 3) * (- 1)"
    using example_weights_ordered by linarith
  from example_evalFailureStrainSens f d n show ?thesis by blast
qed

section \<open>Properties of the design-variable routines\<close>

text \<open>
  Claim C3 does not hold of the code.  In the example object the panel block of the
  design variables starts at index 2 and the stiffener block at index 3.  The
  crippling-stress contribution, which the collaborator adds into the first entry of the
  block it is handed, lands at index 2, inside the panel block, and the stiffener block
  stays as it was; the neighbouring call for the stiffener material failure writes at
  index 3.
\<close>

theorem addFailureDVSens_stiffenerStress_at_panel_offset:
  "addFailureDVSens_stiffenerStress example_collab example_shell 1 example_strain (replicate 6 0)
     = Some [0, 0, - (example_dKSdf ! 4 / 4), 0, 0, 0]
   \<and> addFailureDVSens_stiffenerFailure example_collab example_shell 1 example_strain
         (replicate 6 0)
       = Some [0, 0, 0, example_dKSdf ! 1, 0, 0]
   \<and> 0 < example_dKSdf ! 4 \<and> 0 < example_dKSdf ! 1
   \<and> panelDVStartNum example_shell = 2 \<and> stiffenerDVStartNum example_shell = 3"
proof -
  have a: "addFailureDVSens_stiffenerStress example_collab example_shell 1 example_strain
             (replicate 6 0)
           = Some [0, 0, - (example_dKSdf ! 4 / 4), 0, 0, 0]"
    unfolding addFailureDVSens_stiffenerStress_def
    by (simp add: Let_def example_computeFailureValues example_ksSens example_crippling
        at_offset_def rep6 rep9 cong: let_weak_cong)
  have b: "addFailureDVSens_stiffenerFailure example_collab example_shell 1 example_strain
             (replicate 6 0)
           = Some [0, 0, 0, example_dKSdf ! 1, 0, 0]"
    unfolding addFailureDVSens_stiffenerFailure_def
    by (simp add: Let_def example_computeFailureValues example_ksSens at_offset_def rep6
        cong: let_weak_cong)
  from a b example_dKSdf4_pos example_dKSdf1_pos show ?thesis by simp
qed

subsection \<open>The panel-width design variable\<close>

text \<open>The constructor gives the panel width the next free local number.\<close>

lemma constructor_registers_panelWidth:
  assumes "pWidthNum \<ge> 0"
  shows "panelWidthLocalNum (TACSGPBladeStiffenedShellConstitutive base pWidth pWidthNum aGP sGP cGP)
           = numDesignVars base
       \<and> numDesignVars (TACSGPBladeStiffenedShellConstitutive base pWidth pWidthNum aGP sGP cGP)
           = numDesignVars base + 1
       \<and> panelWidthNum (TACSGPBladeStiffenedShellConstitutive base pWidth pWidthNum aGP sGP cGP)
           = pWidthNum
       \<and> panelWidth (TACSGPBladeStiffenedShellConstitutive base pWidth pWidthNum aGP sGP cGP)
           = pWidth"
  using assms by (simp add: TACSGPBladeStiffenedShellConstitutive_def Let_def)

text \<open>
  Claim C10.  If \<open>panelWidthNum >= 0\<close> and \<open>dvLen >= numDesignVars\<close>, then after
  \<open>setDesignVars(elemIndex, dvLen, dvs)\<close> a call \<open>getDesignVars(elemIndex, dvLen, out)\<close>
  writes \<open>out[panelWidthLocalNum] = dvs[panelWidthLocalNum]\<close>, and both calls return
  \<open>numDesignVars\<close>.  The arrays hold \<open>dvLen\<close> entries, the local number of the panel
  width is the one the constructor gave it (below \<open>numDesignVars\<close>), and the base-class
  methods leave \<open>numDesignVars\<close>, \<open>panelWidthNum\<close>, \<open>panelWidthLocalNum\<close> and the
  length of the array alone.
\<close>

theorem panelWidth_set_get_roundtrip:
  assumes frame: "\<forall>s elemIndex n d.
                    numDesignVars (base_setDesignVars C s elemIndex n d) = numDesignVars s
                  \<and> panelWidthNum (base_setDesignVars C s elemIndex n d) = panelWidthNum s
                  \<and> panelWidthLocalNum (base_setDesignVars C s elemIndex n d)
                      = panelWidthLocalNum s"
      and len: "\<forall>s elemIndex n d. length (base_getDesignVars C s elemIndex n d) = length d"
      and num: "panelWidthNum st \<ge> 0"
      and dvLen: "dvLen \<ge> numDesignVars st"
      and inv: "0 \<le> panelWidthLocalNum st" "panelWidthLocalNum st < numDesignVars st"
      and dvs: "int (length dvs) = dvLen"
      and out: "int (length out) = dvLen"
  shows "\<exists>st' out'.
           setDesignVars C st elemIndex dvLen dvs = Some (numDesignVars st, st')
         \<and> getDesignVars C st' elemIndex dvLen out = Some (numDesignVars st, out')
         \<and> out' ! nat (panelWidthLocalNum st) = dvs ! nat (panelWidthLocalNum st)"
proof -
  let ?st1 = "base_setDesignVars C st elemIndex dvLen dvs"
  let ?k = "panelWidthLocalNum st"
  let ?st' = "?st1\<lparr> panelWidth := dvs ! nat ?k \<rparr>"
  let ?out1 = "base_getDesignVars C ?st' elemIndex dvLen out"
  have f: "numDesignVars ?st1 = numDesignVars st" "panelWidthNum ?st1 = panelWidthNum st"
    "panelWidthLocalNum ?st1 = ?k"
    using frame by simp_all
  have rd: "array_read dvs ?k = Some (dvs ! nat ?k)"
    using inv dvLen dvs by (simp add: array_read_def)
  have set: "setDesignVars C st elemIndex dvLen dvs = Some (numDesignVars st, ?st')"
    using num dvLen by (simp add: setDesignVars_def Let_def f rd)
  have k_lt: "nat ?k < length ?out1"
    using inv dvLen out len by simp
  have wr: "array_write ?out1 ?k (dvs ! nat ?k) = Some (?out1[nat ?k := dvs ! nat ?k])"
    using inv dvLen out len by (simp add: array_write_def)
  have get: "getDesignVars C ?st' elemIndex dvLen out
               = Some (numDesignVars st, ?out1[nat ?k := dvs ! nat ?k])"
    using num dvLen by (simp add: getDesignVars_def Let_def f wr)
  have "(?out1[nat ?k := dvs ! nat ?k]) ! nat ?k = dvs ! nat ?k"
    using k_lt by simp
  with set get show ?thesis by blast
qed

text \<open>
  The theorem at the example object (six design variables, the panel width at local
  number 5): setting \<open>[1, 2, 3, 4, 5, 7]\<close> and reading back gives 7 at index 5.
\<close>

theorem panelWidth_set_get_roundtrip_witness:
  "panelWidthNum example_shell \<ge> 0 \<and> (6::int) \<ge> numDesignVars example_shell
   \<and> 0 \<le> panelWidthLocalNum example_shell
   \<and> panelWidthLocalNum example_shell < numDesignVars example_shell
   \<and> (\<exists>st' out'.
         setDesignVars example_collab example_shell 0 6 [1, 2, 3, 4, 5, 7] = Some (6, st')
       \<and> getDesignVars example_collab st' 0 6 [0, 0, 0, 0, 0, 0] = Some (6, out')
       \<and> out' ! 5 = 7)"
proof -
  have frame: "\<forall>s elemIndex n d.
                    numDesignVars (base_setDesignVars example_collab s elemIndex n d)
                      = numDesignVars s
                  \<and> panelWidthNum (base_setDesignVars example_collab s elemIndex n d)
                      = panelWidthNum s
                  \<and> panelWidthLocalNum (base_setDesignVars example_collab s elemIndex n d)
                      = panelWidthLocalNum s"
    by simp
  have len: "\<forall>s elemIndex n d. length (base_getDesignVars example_collab s elemIndex n d)
                                   = length d"
    by simp
  have num: "panelWidthNum example_shell \<ge> 0" by simp
  have dvLen: "(6::int) \<ge> numDesignVars example_shell" by simp
  have inv: "0 \<le> panelWidthLocalNum example_shell"
    "panelWidthLocalNum example_shell < numDesignVars example_shell"
    by simp_all
  have dvs: "int (length [1::real, 2, 3, 4, 5, 7]) = 6" by simp
  have out: "int (length [0::real, 0, 0, 0, 0, 0]) = 6" by simp
  from panelWidth_set_get_roundtrip[OF frame len num dvLen inv dvs out, of 0]
  have "\<exists>st' out'.
         setDesignVars example_collab example_shell 0 6 [1, 2, 3, 4, 5, 7] = Some (6, st')
       \<and> getDesignVars example_collab st' 0 6 [0, 0, 0, 0, 0, 0] = Some (6, out')
       \<and> out' ! 5 = 7"
    by simp
  with num dvLen inv show ?thesis by blast
qed

end
